theory Spec2Isabelle
  imports Main
begin

section \<open>Python values, strings and dictionaries\<close>

text \<open>
  The module \<^verbatim>\<open>scan_error.py\<close> wraps a callable, catches the exception it raises,
  assembles a report dictionary and hands it to a registered handler. The model keeps the
  Python data the code inspects:
  \<^item> a Python value is known by its kind and by what \<^verbatim>\<open>str(value)\<close> gives, which may
    raise: for a user-defined object, and for an integer of more than 4300 digits (the
    default limit of CPython since 3.11);
  \<^item> a character is a code point below 256;
  \<^item> a dictionary with string keys is a map \<open>string \<rightharpoonup> 'v\<close>; \<^verbatim>\<open>d.update(e)\<close> is \<open>d ++ e\<close>;
  \<^item> a Python \<^verbatim>\<open>int\<close> is an \<open>int\<close>.
\<close>

datatype pyval =
    PyNone
  | PyBool bool
  | PyInt int
  | PyStr string
  | PyObj "string option"  \<comment> \<open>any other object, with the result of its \<^verbatim>\<open>__str__\<close>; \<open>None\<close>: it raises\<close>

definition digit_char :: "nat \<Rightarrow> char" where
  "digit_char d = ''0123456789'' ! d"

fun string_of_nat :: "nat \<Rightarrow> string" where
  "string_of_nat n =
     (if n < 10 then [digit_char n] else string_of_nat (n div 10) @ [digit_char (n mod 10)])"

definition string_of_int :: "int \<Rightarrow> string" where
  "string_of_int i = (if i < 0 then CHR ''-'' # string_of_nat (nat (- i)) else string_of_nat (nat i))"

fun py_str :: "pyval \<Rightarrow> string option" where
  "py_str PyNone = Some ''None''"
| "py_str (PyBool b) = Some (if b then ''True'' else ''False'')"
| "py_str (PyInt i) =
     (if 4300 < length (string_of_nat (nat \<bar>i\<bar>)) then None else Some (string_of_int i))"
| "py_str (PyStr s) = Some s"
| "py_str (PyObj r) = r"

text \<open>
  The shared pattern of lines 408-415, 557-564 and 572-579: \<^verbatim>\<open>str(value)\<close>, cut to
  \<open>limit\<close> characters with an ellipsis when longer, and a fixed placeholder when
  \<^verbatim>\<open>str\<close> raises.
\<close>

definition summarize :: "nat \<Rightarrow> pyval \<Rightarrow> string" where
  "summarize limit v =
     (case py_str v of
        None \<Rightarrow> ''<unable to represent>''
      | Some s \<Rightarrow> if length s > limit then take limit s @ ''...'' else s)"

definition starts_with_underscore :: "string \<Rightarrow> bool" where
  "starts_with_underscore k = (case k of [] \<Rightarrow> False | c # _ \<Rightarrow> c = CHR ''_'')"

text \<open>Line 569: the keyword-context test for a sensitive key.\<close>

definition sensitive_key :: "string \<Rightarrow> bool" where
  "sensitive_key k =
     (starts_with_underscore k \<or>
      k \<in> set [''password'', ''token'', ''secret'', ''key'', ''api_key'', ''auth_token''])"

text \<open>Line 405: the test for a local variable, with one more name.\<close>

definition sensitive_local :: "string \<Rightarrow> bool" where
  "sensitive_local k =
     (starts_with_underscore k \<or>
      k \<in> set [''password'', ''token'', ''secret'', ''key'', ''api_key'', ''auth_token'',
                 ''credentials''])"

text \<open>The characters that \<^verbatim>\<open>str.rstrip()\<close> and \<^verbatim>\<open>str.lstrip()\<close> remove.\<close>

definition is_space :: "char \<Rightarrow> bool" where
  "is_space c =
     (c \<in> set [CHR '' '', CHR 0x09, CHR 0x0A, CHR 0x0B, CHR 0x0C, CHR 0x0D,
                CHR 0x1C, CHR 0x1D, CHR 0x1E, CHR 0x1F, CHR 0x85, CHR 0xA0])"

definition rstrip :: "string \<Rightarrow> string" where
  "rstrip s = rev (dropWhile is_space (rev s))"

definition backslash :: char where
  "backslash = CHR 0x5C"

text \<open>Lines 397 and 504: the part of a file name after its last backslash.\<close>

definition module_of :: "string \<Rightarrow> string" where
  "module_of fname =
     (if backslash \<in> set fname then rev (takeWhile (\<lambda>c. c \<noteq> backslash) (rev fname)) else fname)"

section \<open>Exceptions, tracebacks, frames and files\<close>

text \<open>
  One entry of \<^verbatim>\<open>traceback.extract_tb\<close>: file name, line number, function name and the
  text of the line (absent when the source is not available). The list runs from the
  outermost call to the innermost one, so \<^verbatim>\<open>tb[-1]\<close> is where the exception was raised.
\<close>

record tb_entry =
  tb_filename :: string
  tb_lineno :: int
  tb_name :: string
  tb_line :: "string option"

text \<open>
  An instance of \<^verbatim>\<open>Exception\<close>: the name of its class, the names of the classes it
  inherits from, \<^verbatim>\<open>str(e)\<close>, \<^verbatim>\<open>__cause__\<close>, \<^verbatim>\<open>__context__\<close>,
  \<^verbatim>\<open>__suppress_context__\<close> and \<^verbatim>\<open>__traceback__\<close>. \<^verbatim>\<open>str\<close> of an exception is taken
  as total (the source does not guard it either), and a chain of causes is finite.
\<close>

datatype exc =
  Exc (exc_type: string) (exc_ancestors: "string list") (exc_message: string)
      (exc_cause: "exc option") (exc_context: "exc option") (exc_suppress_context: bool)
      (exc_traceback: "tb_entry list option")

text \<open>\<^verbatim>\<open>isinstance(e, error_type)\<close>: the class of \<open>e\<close> or one of its ancestors.\<close>

definition isinstance :: "exc \<Rightarrow> string \<Rightarrow> bool" where
  "isinstance e error_type = (error_type = exc_type e \<or> error_type \<in> set (exc_ancestors e))"

text \<open>
  A frame object: \<^verbatim>\<open>f_code.co_filename\<close>, \<^verbatim>\<open>f_lineno\<close>, \<^verbatim>\<open>f_code.co_name\<close>, the text
  of its current line, \<^verbatim>\<open>f_locals\<close> and \<^verbatim>\<open>f_back\<close>.
\<close>

datatype pyframe =
  Frame (f_filename: string) (f_lineno: int) (f_name: string) (f_line: string)
        (f_locals: "(string \<times> pyval) list") (f_back: "pyframe option")

text \<open>
  The loop of lines 386-442 starts from \<^verbatim>\<open>sys.exc_info()[2]\<close>, which is a traceback
  object. A traceback object has the attributes \<^verbatim>\<open>tb_frame\<close>, \<^verbatim>\<open>tb_lineno\<close>,
  \<^verbatim>\<open>tb_lasti\<close> and \<^verbatim>\<open>tb_next\<close>, and no \<^verbatim>\<open>f_code\<close>: reading \<^verbatim>\<open>f_code\<close>,
  the first thing the loop body does, raises \<^verbatim>\<open>AttributeError\<close> on it.
\<close>

datatype stack_obj = TracebackObj "tb_entry list" | FrameObj pyframe

datatype internal_error = AttributeError | UnicodeDecodeError

fun frame_of :: "stack_obj \<Rightarrow> internal_error + pyframe" where
  "frame_of (TracebackObj t) = Inl AttributeError"
| "frame_of (FrameObj f) = Inr f"

text \<open>
  What \<^verbatim>\<open>open(filename, 'r', encoding='utf-8')\<close> followed by \<^verbatim>\<open>readlines()\<close> does:
  \<^verbatim>\<open>open\<close> raises \<^verbatim>\<open>OSError\<close> (of which \<^verbatim>\<open>IOError\<close> is an alias) when the file cannot
  be opened, \<^verbatim>\<open>readlines\<close> raises \<^verbatim>\<open>UnicodeDecodeError\<close> (a \<^verbatim>\<open>ValueError\<close>) when the
  bytes are not UTF-8, and otherwise the lines are returned.
\<close>

datatype file_read = Unreadable | Undecodable | Lines "string list"

section \<open>The report\<close>

record chain_link =
  link_type :: string
  link_message :: string
  link_index :: nat
  link_is_original :: "bool option"  \<comment> \<open>the key is only set, to \<^verbatim>\<open>True\<close>, at index 0\<close>
  link_traceback :: "string list option"
  link_relation :: "string option"

record code_line =
  line_no :: int
  code :: string
  is_error_line :: bool

record context_line =
  ctx_line_no :: int
  ctx_code :: string
  is_current_line :: bool

record frame_record =
  fr_filename :: string
  fr_line_number :: int
  fr_function_name :: string
  fr_code :: string
  fr_module :: string
  fr_local_variables :: "(string \<times> string) list option"
  fr_source_context :: "context_line list option"

record error_record =
  err_type :: string
  err_message :: string
  err_timestamp :: string
  err_exception_chain :: "chain_link list"
  err_level :: string

record location =
  loc_filename :: string
  loc_line_number :: int
  loc_function_name :: string
  loc_source_code :: "string option"
  loc_module :: string

record code_context =
  cc_lines :: "code_line list"
  cc_error_line :: int

record highlighted_line =
  hl_line_no :: int
  hl_code :: string
  hl_type :: string
  hl_indent_level :: nat

record highlighted =
  hl_lines :: "highlighted_line list"
  hl_error_line :: int
  hl_error_line_index :: int

record configuration =
  cfg_capture_code_context :: bool
  cfg_capture_locals :: bool
  cfg_max_stack_depth :: int
  cfg_error_level :: string

text \<open>
  The values a report dictionary holds: the structured fields \<^verbatim>\<open>_collect_error_info\<close>
  builds, the strings and the line number \<^verbatim>\<open>_extract_context_info\<close> adds, and the
  values of \<^verbatim>\<open>custom_context\<close>, which are stored as they are.
\<close>

datatype rvalue =
    Summary string
  | Number int
  | Raw pyval
  | ErrorV error_record
  | LocationV "location option"
  | CodeContextV "code_context option"
  | StackTraceV "frame_record list"
  | RawTracebackV "string list"
  | HighlightedV "highlighted option"
  | ConfigurationV configuration

type_synonym report = "string \<rightharpoonup> rvalue"

section \<open>Collecting the error information\<close>

text \<open>
  Lines 357-382: the code around the error line. \<^verbatim>\<open>range(start_line, end_line)\<close> is
  empty when the end is not above the start; only \<^verbatim>\<open>IOError\<close> and \<^verbatim>\<open>OSError\<close> are
  caught, so a decoding error leaves the function.
\<close>

definition code_window ::
  "(string \<Rightarrow> file_read) \<Rightarrow> string \<Rightarrow> int \<Rightarrow> string option \<Rightarrow> internal_error + code_line list" where
  "code_window files filename lineno src =
     (case files filename of
        Lines ls \<Rightarrow>
          Inr (map (\<lambda>i. \<lparr>line_no = int i + 1, code = rstrip (ls ! i),
                           is_error_line = (int i + 1 = lineno)\<rparr>)
                   [nat (max 0 (lineno - 11)) ..< nat (min (int (length ls)) (lineno + 10))])
      | Unreadable \<Rightarrow>
          Inr [\<lparr>line_no = lineno, code = (case src of None \<Rightarrow> [] | Some c \<Rightarrow> c),
                is_error_line = True\<rparr>]
      | Undecodable \<Rightarrow> Inl UnicodeDecodeError)"

text \<open>Lines 400-418: the local variables of a frame, the sensitive ones filtered.\<close>

definition local_vars :: "(string \<times> pyval) list \<Rightarrow> (string \<times> string) list" where
  "local_vars locals =
     map (\<lambda>(var_name, var_value).
            (var_name, if sensitive_local var_name then ''<filtered>'' else summarize 150 var_value))
         locals"

text \<open>
  Lines 420-436: the lines around the current line of a frame; here a file that cannot
  be opened or decoded only leaves the key out.
\<close>

definition source_context :: "(string \<Rightarrow> file_read) \<Rightarrow> string \<Rightarrow> int \<Rightarrow> context_line list option" where
  "source_context files filename lineno =
     (case files filename of
        Lines ls \<Rightarrow>
          Some (map (\<lambda>i. \<lparr>ctx_line_no = int i + 1, ctx_code = rstrip (ls ! i),
                            is_current_line = (int i + 1 = lineno)\<rparr>)
                    [nat (max 0 (lineno - 6)) ..< nat (min (int (length ls)) (lineno + 5))])
      | Unreadable \<Rightarrow> None
      | Undecodable \<Rightarrow> None)"

definition frame_info :: "bool \<Rightarrow> bool \<Rightarrow> (string \<Rightarrow> file_read) \<Rightarrow> pyframe \<Rightarrow> frame_record" where
  "frame_info capture_code_context capture_locals files f =
     \<lparr>fr_filename = f_filename f,
      fr_line_number = f_lineno f,
      fr_function_name = f_name f,
      fr_code = f_line f,
      fr_module = module_of (f_filename f),
      fr_local_variables =
        (if capture_code_context \<and> capture_locals \<and> local_vars (f_locals f) \<noteq> []
         then Some (local_vars (f_locals f)) else None),
      fr_source_context =
        (if capture_code_context then source_context files (f_filename f) (f_lineno f) else None)\<rparr>"

text \<open>
  Lines 384-442: the loop over the stack. An exception raised by the body ends the loop
  (\<^verbatim>\<open>except Exception: break\<close>) before anything is appended.
\<close>

function walk_stack ::
  "bool \<Rightarrow> bool \<Rightarrow> int \<Rightarrow> (string \<Rightarrow> file_read) \<Rightarrow> stack_obj option \<Rightarrow> int \<Rightarrow> frame_record list" where
  "walk_stack capture_code_context capture_locals max_stack_depth files frame frame_index =
     (case frame of
        None \<Rightarrow> []
      | Some obj \<Rightarrow>
          if frame_index < max_stack_depth then
            (case frame_of obj of
               Inl err \<Rightarrow> []
             | Inr f \<Rightarrow>
                 frame_info capture_code_context capture_locals files f #
                 walk_stack capture_code_context capture_locals max_stack_depth files
                   (map_option FrameObj (f_back f)) (frame_index + 1))
          else [])"
  by pat_completeness auto
termination
  by (relation "measure (\<lambda>(c, l, d, fs, fr, i). nat (d - i))") auto

text \<open>
  Lines 444-482: the chain of exceptions. The dictionary \<^verbatim>\<open>chain_info\<close> is appended
  first and its \<^verbatim>\<open>relation\<close> key is set afterwards, on the same object, so the link in
  the list carries the relation.
\<close>

definition chain_info :: "(exc \<Rightarrow> string list) \<Rightarrow> exc \<Rightarrow> nat \<Rightarrow> chain_link" where
  "chain_info format_exception current_error chain_index =
     \<lparr>link_type = exc_type current_error,
      link_message = exc_message current_error,
      link_index = chain_index,
      link_is_original = (if chain_index = 0 then Some True else None),
      link_traceback =
        (case exc_traceback current_error of
           None \<Rightarrow> None
         | Some t \<Rightarrow> Some (format_exception current_error)),
      link_relation = None\<rparr>"

text \<open>Lines 472-480: the link followed from an exception, \<^verbatim>\<open>__cause__\<close> before
  \<^verbatim>\<open>__context__\<close>, with the relation recorded for it; \<open>None\<close> is the \<^verbatim>\<open>break\<close>.\<close>

definition next_error :: "exc \<Rightarrow> (string \<times> exc) option" where
  "next_error current_error =
     (case exc_cause current_error of
        Some cause \<Rightarrow> Some (''caused_by'', cause)
      | None \<Rightarrow>
          (case exc_context current_error of
             Some ctx \<Rightarrow>
               if \<not> exc_suppress_context current_error then Some (''context_for'', ctx) else None
           | None \<Rightarrow> None))"

function exception_chain :: "(exc \<Rightarrow> string list) \<Rightarrow> exc option \<Rightarrow> nat \<Rightarrow> chain_link list" where
  "exception_chain format_exception current chain_index =
     (case current of
        None \<Rightarrow> []
      | Some current_error \<Rightarrow>
          if chain_index < 10 then
            (case next_error current_error of
               Some (relation, next) \<Rightarrow>
                 (chain_info format_exception current_error chain_index)
                   \<lparr>link_relation := Some relation\<rparr> #
                 exception_chain format_exception (Some next) (chain_index + 1)
             | None \<Rightarrow> [chain_info format_exception current_error chain_index])
          else [])"
  by pat_completeness auto
termination
  by (relation "measure (\<lambda>(fmt, cur, i). 10 - i)") auto

text \<open>Lines 595-636: the highlighted view of the code context.\<close>

definition highlight_line :: "int \<Rightarrow> code_line \<Rightarrow> highlighted_line" where
  "highlight_line error_line line_info =
     \<lparr>hl_line_no = line_no line_info,
      hl_code = code line_info,
      hl_type = (if is_error_line line_info then ''error''
                 else if line_no line_info < error_line then ''before'' else ''after''),
      hl_indent_level = length (takeWhile is_space (code line_info))\<rparr>"

fun error_line_index :: "code_line list \<Rightarrow> int \<Rightarrow> int \<Rightarrow> int" where
  "error_line_index [] i found = found"
| "error_line_index (line_info # rest) i found =
     error_line_index rest (i + 1) (if is_error_line line_info then i else found)"

definition generate_highlighted_code :: "code_line list \<Rightarrow> int \<Rightarrow> highlighted option" where
  "generate_highlighted_code code_ctx error_line =
     (if code_ctx = [] then None
      else Some \<lparr>hl_lines = map (highlight_line error_line) code_ctx,
                 hl_error_line = error_line,
                 hl_error_line_index = error_line_index code_ctx 0 (- 1)\<rparr>)"

text \<open>
  What the code reads from its surroundings: the files, the clock of \<^verbatim>\<open>_get_timestamp\<close>,
  the library function \<^verbatim>\<open>traceback.format_exception\<close>, the traceback of the exception
  being handled where \<^verbatim>\<open>report_error\<close> is called (\<^verbatim>\<open>sys.exc_info()[2]\<close>, absent when
  none is), the local variables of the frame two levels above \<^verbatim>\<open>_handle_exception\<close>
  (absent when there is no such frame), and the file name of the module itself.
\<close>

record env =
  files :: "string \<Rightarrow> file_read"
  now :: string
  format_exception :: "exc \<Rightarrow> string list"
  handled_traceback :: "tb_entry list option"
  caller_locals :: "(string \<rightharpoonup> pyval) option"
  module_file :: string

definition location_of :: "tb_entry \<Rightarrow> location" where
  "location_of entry =
     \<lparr>loc_filename = tb_filename entry,
      loc_line_number = tb_lineno entry,
      loc_function_name = tb_name entry,
      loc_source_code = tb_line entry,
      loc_module = module_of (tb_filename entry)\<rparr>"

text \<open>
  Lines 336-531. \<open>exc_info_tb\<close> is \<^verbatim>\<open>sys.exc_info()[2]\<close>; \<open>tb\<close> is its list of entries.
  The only step that can leave the function with an exception is the reading of the
  file for the code context.
\<close>

definition collect_error_info ::
  "env \<Rightarrow> tb_entry list option \<Rightarrow> exc \<Rightarrow> bool \<Rightarrow> string \<Rightarrow> bool \<Rightarrow> int \<Rightarrow> internal_error + report" where
  "collect_error_info E exc_info_tb error capture_code_context error_level capture_locals
       max_stack_depth =
     (let tb = (case exc_info_tb of None \<Rightarrow> [] | Some t \<Rightarrow> t) in
      case (if capture_code_context \<and> tb \<noteq> []
            then code_window (files E) (tb_filename (last tb)) (tb_lineno (last tb)) (tb_line (last tb))
            else Inr []) of
        Inl err \<Rightarrow> Inl err
      | Inr code_ctx \<Rightarrow>
          Inr [''error'' \<mapsto> ErrorV
                 \<lparr>err_type = exc_type error,
                  err_message = exc_message error,
                  err_timestamp = now E,
                  err_exception_chain = exception_chain (format_exception E) (Some error) 0,
                  err_level = error_level\<rparr>,
               ''location'' \<mapsto> LocationV (if tb \<noteq> [] then Some (location_of (last tb)) else None),
               ''code_context'' \<mapsto> CodeContextV
                 (if capture_code_context \<and> tb \<noteq> []
                  then Some \<lparr>cc_lines = code_ctx, cc_error_line = tb_lineno (last tb)\<rparr> else None),
               ''stack_trace'' \<mapsto> StackTraceV
                 (walk_stack capture_code_context capture_locals max_stack_depth (files E)
                    (map_option TracebackObj exc_info_tb) 0),
               ''raw_traceback'' \<mapsto> RawTracebackV (format_exception E error),
               ''highlighted_code'' \<mapsto> HighlightedV
                 (if capture_code_context \<and> tb \<noteq> []
                  then generate_highlighted_code code_ctx (tb_lineno (last tb)) else None),
               ''configuration'' \<mapsto> ConfigurationV
                 \<lparr>cfg_capture_code_context = capture_code_context,
                  cfg_capture_locals = capture_locals,
                  cfg_max_stack_depth = max_stack_depth,
                  cfg_error_level = error_level\<rparr>])"

section \<open>Extracting the context\<close>

text \<open>
  Lines 542-593. The positional arguments come first, then the keyword arguments, then
  the function, file and line of the caller of \<^verbatim>\<open>_extract_context_info\<close>, which is
  \<^verbatim>\<open>_handle_exception\<close> at line 136 or \<^verbatim>\<open>report_error\<close> at line 306. A later entry
  replaces an earlier one with the same key.
\<close>

definition arg_entries :: "pyval list \<Rightarrow> report" where
  "arg_entries args =
     foldl (\<lambda>context (i, arg). context(''arg_'' @ string_of_nat i \<mapsto> Summary (summarize 50 arg)))
       Map.empty (enumerate 0 args)"

definition kw_entries :: "(string \<rightharpoonup> pyval) \<Rightarrow> report" where
  "kw_entries kwargs =
     (\<lambda>key. case kwargs key of
               None \<Rightarrow> None
             | Some v \<Rightarrow>
                 Some (Summary (if sensitive_key key then ''<filtered>'' else summarize 100 v)))"

definition extract_context_info ::
  "env \<Rightarrow> string \<Rightarrow> int \<Rightarrow> pyval list \<Rightarrow> (string \<rightharpoonup> pyval) \<Rightarrow> report" where
  "extract_context_info E caller_function caller_line args kwargs =
     (arg_entries args ++ kw_entries kwargs)
       (''caller_function'' \<mapsto> Summary caller_function,
        ''caller_filename'' \<mapsto> Summary (module_file E),
        ''caller_line_number'' \<mapsto> Number caller_line)"

section \<open>The handler\<close>

text \<open>
  The class attribute \<^verbatim>\<open>_error_handler\<close> is the state of the module. A handler is
  either a blocking function of the report, where \<open>True\<close> stands for a call that raises,
  or a coroutine function (\<^verbatim>\<open>inspect.iscoroutinefunction\<close>). Calling a coroutine
  function only builds a coroutine object: its body does not run during the call.
  \<^verbatim>\<open>asyncio.create_task\<close> schedules the coroutine when an event loop is running in the
  calling thread, and raises \<^verbatim>\<open>RuntimeError\<close> when none is.

  The world records the handler, whether an event loop is running, every report with
  which a blocking handler was called, every report for which a task was scheduled, and
  every line the module prints.
\<close>

datatype sink = Blocking "report \<Rightarrow> bool" | Coroutine

datatype diag = EventRecovered | InternalFailure internal_error | HandlerFailed

record world =
  error_handler :: "sink option"
  loop_running :: bool
  delivered :: "report list"
  scheduled :: "report list"
  diagnostics :: "diag list"

definition set_error_handler :: "sink option \<Rightarrow> world \<Rightarrow> world" where
  "set_error_handler handler w = w\<lparr>error_handler := handler\<rparr>"

definition print_diag :: "diag \<Rightarrow> world \<Rightarrow> world" where
  "print_diag d w = w\<lparr>diagnostics := diagnostics w @ [d]\<rparr>"

text \<open>
  Lines 319-334. A failure of either branch, the task that cannot be created or the
  blocking handler that raises, is printed and goes no further.
\<close>

definition call_error_handler :: "report \<Rightarrow> world \<Rightarrow> world" where
  "call_error_handler error_info w =
     (case error_handler w of
        None \<Rightarrow> w
      | Some handler \<Rightarrow>
          (case handler of
             Coroutine \<Rightarrow>
               if loop_running w then w\<lparr>scheduled := scheduled w @ [error_info]\<rparr>
               else print_diag HandlerFailed w
           | Blocking call \<Rightarrow>
               (let w' = w\<lparr>delivered := delivered w @ [error_info]\<rparr>
                in if call error_info then print_diag HandlerFailed w' else w')))"

section \<open>The decorator\<close>

text \<open>
  \<^verbatim>\<open>decorator_kwargs\<close> is a dictionary; the record gives its seven recognised keys their
  types (absent: \<open>None\<close>) and keeps the other keys as a dictionary.
\<close>

record decorator_kwargs =
  kw_ignore_errors :: "string list option"
  kw_propagate_errors :: "string list option"
  kw_custom_context :: "(string \<rightharpoonup> pyval) option"
  kw_capture_code_context :: "bool option"
  kw_error_level :: "string option"
  kw_capture_locals :: "bool option"
  kw_max_stack_depth :: "int option"
  kw_other :: "string \<rightharpoonup> pyval"

text \<open>Lines 91-98: the configuration with its defaults.\<close>

definition ignore_errors :: "decorator_kwargs \<Rightarrow> string list" where
  "ignore_errors D = (case kw_ignore_errors D of None \<Rightarrow> [] | Some l \<Rightarrow> l)"

definition propagate_errors :: "decorator_kwargs \<Rightarrow> string list" where
  "propagate_errors D = (case kw_propagate_errors D of None \<Rightarrow> [] | Some l \<Rightarrow> l)"

definition custom_context :: "decorator_kwargs \<Rightarrow> (string \<rightharpoonup> pyval)" where
  "custom_context D = (case kw_custom_context D of None \<Rightarrow> Map.empty | Some c \<Rightarrow> c)"

definition capture_code_context :: "decorator_kwargs \<Rightarrow> bool" where
  "capture_code_context D = (case kw_capture_code_context D of None \<Rightarrow> True | Some b \<Rightarrow> b)"

definition error_level :: "decorator_kwargs \<Rightarrow> string" where
  "error_level D = (case kw_error_level D of None \<Rightarrow> ''DEBUG'' | Some l \<Rightarrow> l)"

definition capture_locals :: "decorator_kwargs \<Rightarrow> bool" where
  "capture_locals D = (case kw_capture_locals D of None \<Rightarrow> False | Some b \<Rightarrow> b)"

definition max_stack_depth :: "decorator_kwargs \<Rightarrow> int" where
  "max_stack_depth D = (case kw_max_stack_depth D of None \<Rightarrow> 10 | Some d \<Rightarrow> d)"

text \<open>
  Lines 100-103: the copy of \<^verbatim>\<open>decorator_kwargs\<close> without the four keys that are popped;
  \<^verbatim>\<open>error_level\<close>, \<^verbatim>\<open>capture_locals\<close> and \<^verbatim>\<open>max_stack_depth\<close> stay in it.
\<close>

definition context_decorator_kwargs :: "decorator_kwargs \<Rightarrow> (string \<rightharpoonup> pyval)" where
  "context_decorator_kwargs D =
     (kw_other D)
       (''error_level'' := map_option PyStr (kw_error_level D),
        ''capture_locals'' := map_option PyBool (kw_capture_locals D),
        ''max_stack_depth'' := map_option PyInt (kw_max_stack_depth D),
        ''ignore_errors'' := None,
        ''propagate_errors'' := None,
        ''custom_context'' := None,
        ''capture_code_context'' := None)"

text \<open>
  The decorated function: its name, module, code object (file name and first line) when
  it has one, the parameter names of \<^verbatim>\<open>inspect.signature\<close> (\<open>None\<close> when it raises
  \<^verbatim>\<open>ValueError\<close> or \<^verbatim>\<open>TypeError\<close>), and what calling it gives: an exception or a result.
  A parameter \<^verbatim>\<open>**kwargs\<close> appears in the signature under its own name only.
\<close>

record 'r target =
  fn_name :: string
  fn_module :: "string option"
  fn_code :: "(string \<times> int) option"
  sig_parameters :: "string list option"
  fn_call :: "pyval list \<Rightarrow> (string \<rightharpoonup> pyval) \<Rightarrow> exc + 'r"

text \<open>Lines 83-88 and 142-145: the keys describing the decorated function.\<close>

definition decorated_function_info :: "'r target \<Rightarrow> report" where
  "decorated_function_info t =
     [''decorated_function_name'' \<mapsto> Summary (fn_name t),
      ''decorated_function_module'' \<mapsto>
         Summary (case fn_module t of None \<Rightarrow> ''unknown'' | Some m \<Rightarrow> m),
      ''decorated_function_filename'' \<mapsto>
         Summary (case fn_code t of None \<Rightarrow> ''unknown'' | Some (filename, lineno) \<Rightarrow> filename),
      ''decorated_function_lineno'' \<mapsto>
         Summary (string_of_int (case fn_code t of None \<Rightarrow> 0 | Some (filename, lineno) \<Rightarrow> lineno))]"

text \<open>Lines 246-284.\<close>

definition context_keys :: "string list" where
  "context_keys =
     [''target_type'', ''target_user_id'', ''target_group_id'', ''event'',
      ''error_context'', ''custom_context'', ''ignore_errors'', ''propagate_errors'']"

definition filter_arguments :: "'r target \<Rightarrow> (string \<rightharpoonup> pyval) \<Rightarrow> (string \<rightharpoonup> pyval)" where
  "filter_arguments t kwargs =
     (case sig_parameters t of
        Some parameters \<Rightarrow>
          (\<lambda>key. if key \<in> set parameters \<or> key \<notin> set context_keys then kwargs key else None)
      | None \<Rightarrow> (\<lambda>k. if k \<notin> set context_keys then kwargs k else None))"

text \<open>
  Lines 117-145: the context of a captured exception. The keyword arguments of the call
  are overridden by the decorator's, \<^verbatim>\<open>event\<close> is looked up in the caller's frame when
  it is missing, the summaries are extracted, the custom context is added as it is
  (updating with an empty dictionary changes nothing), and the keys of the decorated
  function come last.
\<close>

definition event_recovered :: "env \<Rightarrow> decorator_kwargs \<Rightarrow> (string \<rightharpoonup> pyval) \<Rightarrow> pyval option" where
  "event_recovered E D kwargs =
     (if (kwargs ++ context_decorator_kwargs D) ''event'' = None then
        (case caller_locals E of None \<Rightarrow> None | Some locals \<Rightarrow> locals ''event'')
      else None)"

definition context_kwargs :: "env \<Rightarrow> decorator_kwargs \<Rightarrow> (string \<rightharpoonup> pyval) \<Rightarrow> (string \<rightharpoonup> pyval)" where
  "context_kwargs E D kwargs =
     (case event_recovered E D kwargs of
        None \<Rightarrow> kwargs ++ context_decorator_kwargs D
      | Some event \<Rightarrow> (kwargs ++ context_decorator_kwargs D)(''event'' \<mapsto> event))"

definition context_info ::
  "env \<Rightarrow> decorator_kwargs \<Rightarrow> 'r target \<Rightarrow> pyval list \<Rightarrow> (string \<rightharpoonup> pyval) \<Rightarrow> report" where
  "context_info E D t args kwargs =
     extract_context_info E ''_handle_exception'' 136 args (context_kwargs E D kwargs)
       ++ (map_option Raw \<circ> custom_context D)
       ++ decorated_function_info t"

text \<open>
  Lines 117-161: the body of the \<^verbatim>\<open>try\<close>. Inside the \<^verbatim>\<open>except\<close> clause of the wrapper
  \<^verbatim>\<open>sys.exc_info()\<close> describes the caught exception, so its traceback is the one walked.
  An exception of the body is printed and nothing is handed to the handler.
\<close>

definition collected :: "env \<Rightarrow> decorator_kwargs \<Rightarrow> exc \<Rightarrow> internal_error + report" where
  "collected E D e =
     collect_error_info E (exc_traceback e) e (capture_code_context D) (error_level D)
       (capture_locals D) (max_stack_depth D)"

definition capture ::
  "env \<Rightarrow> decorator_kwargs \<Rightarrow> 'r target \<Rightarrow> exc \<Rightarrow> pyval list \<Rightarrow> (string \<rightharpoonup> pyval) \<Rightarrow> world \<Rightarrow> world" where
  "capture E D t e args kwargs w =
     (let w1 = (case event_recovered E D kwargs of None \<Rightarrow> w | Some event \<Rightarrow> print_diag EventRecovered w)
      in case collected E D e of
           Inl handler_error \<Rightarrow> print_diag (InternalFailure handler_error) w1
         | Inr error_info \<Rightarrow> call_error_handler (error_info ++ context_info E D t args kwargs) w1)"

text \<open>What a call of the wrapper gives: the result of the function, the name of the
  class of the exception, or an exception.\<close>

datatype 'r outcome = Returned 'r | Sentinel string | Raised exc

text \<open>Lines 106-164.\<close>

definition handle_exception ::
  "env \<Rightarrow> decorator_kwargs \<Rightarrow> 'r target \<Rightarrow> exc \<Rightarrow> pyval list \<Rightarrow> (string \<rightharpoonup> pyval) \<Rightarrow> world
     \<Rightarrow> 'r outcome \<times> world" where
  "handle_exception E D t e args kwargs w =
     (if list_ex (isinstance e) (ignore_errors D) then (Sentinel (exc_type e), w)
      else if list_ex (isinstance e) (propagate_errors D) then (Raised e, w)
      else (Sentinel (exc_type e), capture E D t e args kwargs w))"

text \<open>Lines 167-192: the wrapper, blocking or awaited alike.\<close>

definition wrapper ::
  "env \<Rightarrow> decorator_kwargs \<Rightarrow> 'r target \<Rightarrow> pyval list \<Rightarrow> (string \<rightharpoonup> pyval) \<Rightarrow> world
     \<Rightarrow> 'r outcome \<times> world" where
  "wrapper E D t args kwargs w =
     (case fn_call t args (filter_arguments t kwargs) of
        Inr result \<Rightarrow> (Returned result, w)
      | Inl e \<Rightarrow> handle_exception E D t e args kwargs w)"

section \<open>Reporting by hand\<close>

text \<open>
  Lines 286-317. The keyword arguments of \<^verbatim>\<open>report_error\<close>, with the three keys it pops
  typed and the others as a dictionary. The class is the function that builds an instance
  from the reason. Nothing is caught here: an exception of \<^verbatim>\<open>_collect_error_info\<close>
  reaches the caller.
\<close>

record report_kwargs =
  rk_error_level :: "string option"
  rk_capture_locals :: "bool option"
  rk_max_stack_depth :: "int option"
  rk_other :: "string \<rightharpoonup> pyval"

definition report_context :: "env \<Rightarrow> report_kwargs \<Rightarrow> report" where
  "report_context E K =
     extract_context_info E ''report_error'' 306 []
       ((rk_other K)(''error_level'' := None, ''capture_locals'' := None, ''max_stack_depth'' := None))"

definition report_error ::
  "env \<Rightarrow> (string \<Rightarrow> exc) \<Rightarrow> string \<Rightarrow> bool \<Rightarrow> report_kwargs \<Rightarrow> world \<Rightarrow> internal_error + world" where
  "report_error E error_type error_reason capture_code_ctx K w =
     (case collect_error_info E (handled_traceback E) (error_type error_reason) capture_code_ctx
             (case rk_error_level K of None \<Rightarrow> ''DEBUG'' | Some l \<Rightarrow> l)
             (case rk_capture_locals K of None \<Rightarrow> False | Some b \<Rightarrow> b)
             (case rk_max_stack_depth K of None \<Rightarrow> 10 | Some d \<Rightarrow> d) of
        Inl err \<Rightarrow> Inl err
      | Inr error_info \<Rightarrow> Inr (call_error_handler (error_info ++ report_context E K) w))"

text \<open>Reading a report: the type recorded under \<^verbatim>\<open>error\<close>, and the lists it carries.\<close>

definition error_type_of :: "report \<Rightarrow> string option" where
  "error_type_of r = (case r ''error'' of Some (ErrorV rec) \<Rightarrow> Some (err_type rec) | _ \<Rightarrow> None)"

definition exception_chain_of :: "report \<Rightarrow> chain_link list option" where
  "exception_chain_of r =
     (case r ''error'' of Some (ErrorV rec) \<Rightarrow> Some (err_exception_chain rec) | _ \<Rightarrow> None)"

definition stack_trace_of :: "report \<Rightarrow> frame_record list option" where
  "stack_trace_of r = (case r ''stack_trace'' of Some (StackTraceV frames) \<Rightarrow> Some frames | _ \<Rightarrow> None)"

definition field :: "string \<Rightarrow> report \<Rightarrow> rvalue option" where
  "field k r = r k"

definition top_level_fields :: "string list" where
  "top_level_fields =
     [''error'', ''location'', ''code_context'', ''stack_trace'', ''raw_traceback'',
      ''highlighted_code'', ''configuration'']"

section \<open>The calls of the examples\<close>

text \<open>
  \<^verbatim>\<open>divide_numbers\<close> of \<^verbatim>\<open>example_usage.py\<close>, decorated without arguments and called
  with positional arguments only, and the exception that \<^verbatim>\<open>divide_numbers(10, 0)\<close>
  raises: its traceback starts in the wrapper (line 175) and ends at the division
  (line 17). The float that \<^verbatim>\<open>a / b\<close> gives for a divisor other than zero is kept as its
  two operands; operands too large for a float are not used.
\<close>

datatype py_float = Quotient int int

definition divide_traceback :: "tb_entry list" where
  "divide_traceback =
     [\<lparr>tb_filename = ''scan_error.py'', tb_lineno = 175, tb_name = ''wrapper'',
       tb_line = Some ''return fn(*args, **filtered_kwargs)''\<rparr>,
      \<lparr>tb_filename = ''example_usage.py'', tb_lineno = 17, tb_name = ''divide_numbers'',
       tb_line = Some ''return a / b''\<rparr>]"

definition zero_division :: exc where
  "zero_division =
     Exc ''ZeroDivisionError'' [''ArithmeticError'', ''Exception'', ''BaseException'', ''object'']
       ''division by zero'' None None False (Some divide_traceback)"

definition bad_operands :: exc where
  "bad_operands =
     Exc ''TypeError'' [''Exception'', ''BaseException'', ''object'']
       ''unsupported operand type(s) for /'' None None False (Some divide_traceback)"

definition divide_numbers :: "py_float target" where
  "divide_numbers =
     \<lparr>fn_name = ''divide_numbers'', fn_module = Some ''example_usage'',
      fn_code = Some (''example_usage.py'', 14), sig_parameters = Some [''a'', ''b''],
      fn_call = (\<lambda>args kwargs.
         case args of
           [PyInt a, PyInt b] \<Rightarrow> if b = 0 then Inl zero_division else Inr (Quotient a b)
         | _ \<Rightarrow> Inl bad_operands)\<rparr>"

text \<open>
  No source file on disk and a fixed clock; a blocking handler that returns normally,
  called outside of any event loop, and the same world with a coroutine handler.
\<close>

definition scenario_env :: env where
  "scenario_env =
     \<lparr>files = (\<lambda>filename. Unreadable), now = ''2025-01-01 00:00:00'',
      format_exception = (\<lambda>e. [exc_type e @ '': '' @ exc_message e]),
      handled_traceback = None, caller_locals = None, module_file = ''scan_error.py''\<rparr>"

definition scenario_world :: world where
  "scenario_world =
     \<lparr>error_handler = Some (Blocking (\<lambda>r. False)), loop_running = False, delivered = [],
      scheduled = [], diagnostics = []\<rparr>"

definition coroutine_world :: world where
  "coroutine_world = scenario_world\<lparr>error_handler := Some Coroutine\<rparr>"

text \<open>\<^verbatim>\<open>@error_decorator\<close> without arguments, and the variants used below.\<close>

definition default_kwargs :: decorator_kwargs where
  "default_kwargs =
     \<lparr>kw_ignore_errors = None, kw_propagate_errors = None, kw_custom_context = None,
      kw_capture_code_context = None, kw_error_level = None, kw_capture_locals = None,
      kw_max_stack_depth = None, kw_other = Map.empty\<rparr>"

definition ignore_and_propagate :: decorator_kwargs where
  "ignore_and_propagate =
     default_kwargs\<lparr>kw_ignore_errors := Some [''ArithmeticError''],
                    kw_propagate_errors := Some [''ZeroDivisionError'']\<rparr>"

definition propagate_arithmetic :: decorator_kwargs where
  "propagate_arithmetic = default_kwargs\<lparr>kw_propagate_errors := Some [''ArithmeticError'']\<rparr>"

text \<open>
  The same call where \<^verbatim>\<open>example_usage.py\<close> is stored in an encoding other than UTF-8
  (a source file may declare one) and holds a character outside ASCII, and a call of
  \<^verbatim>\<open>report_error\<close> from an \<^verbatim>\<open>except\<close> clause that handles the division by zero.
\<close>

definition undecodable_env :: env where
  "undecodable_env =
     scenario_env\<lparr>files := (\<lambda>filename. if filename = ''example_usage.py'' then Undecodable
                                         else Unreadable),
                  handled_traceback := Some divide_traceback\<rparr>"

definition value_error :: "string \<Rightarrow> exc" where
  "value_error reason =
     Exc ''ValueError'' [''Exception'', ''BaseException'', ''object''] reason None None False None"

definition no_report_kwargs :: report_kwargs where
  "no_report_kwargs =
     \<lparr>rk_error_level = None, rk_capture_locals = None, rk_max_stack_depth = None,
      rk_other = Map.empty\<rparr>"


text \<open>
  \<^verbatim>\<open>raise RuntimeError(...) from e\<close>, nested: \<open>cause_chain n\<close> has \<open>n\<close> explicit causes
  below it. \<^verbatim>\<open>raise ... from e\<close> sets \<^verbatim>\<open>__cause__\<close> and \<^verbatim>\<open>__context__\<close> to \<open>e\<close>
  and \<^verbatim>\<open>__suppress_context__\<close> to true. The tracebacks are left out.
\<close>

fun cause_chain :: "nat \<Rightarrow> exc" where
  "cause_chain 0 = value_error ''root cause''"
| "cause_chain (Suc n) =
     Exc ''RuntimeError'' [''Exception'', ''BaseException'', ''object''] ''wrapped''
       (Some (cause_chain n)) (Some (cause_chain n)) True None"

text \<open>
  The words of the specification for the chain: the fault reached from \<open>e\<close> after \<open>n\<close>
  links, each link being the explicit cause or else the unsuppressed context.
\<close>

fun followed :: "exc \<Rightarrow> nat \<Rightarrow> exc option" where
  "followed e 0 = Some e"
| "followed e (Suc n) =
     (case next_error e of None \<Rightarrow> None | Some (relation, next) \<Rightarrow> followed next n)"

text \<open>
  \<^verbatim>\<open>def echo(**kwargs): return kwargs.get('target_type')\<close>: a function that accepts any
  keyword argument through \<^verbatim>\<open>**kwargs\<close>; its signature has the one parameter
  \<^verbatim>\<open>kwargs\<close>.
\<close>

definition echo :: "pyval option target" where
  "echo =
     \<lparr>fn_name = ''echo'', fn_module = Some ''example_usage'',
      fn_code = Some (''example_usage.py'', 1), sig_parameters = Some [''kwargs''],
      fn_call = (\<lambda>args kwargs. Inr (kwargs ''target_type''))\<rparr>"


text \<open>
  \<^verbatim>\<open>async_divide(a, b, **kwargs)\<close> of \<^verbatim>\<open>example_usage.py\<close>, which accepts and ignores any
  keyword argument, and \<^verbatim>\<open>def show_event(event=None): return event\<close>, called with
  the keyword \<^verbatim>\<open>event\<close> at most.
\<close>

definition async_traceback :: "tb_entry list" where
  "async_traceback =
     [\<lparr>tb_filename = ''scan_error.py'', tb_lineno = 187, tb_name = ''async_wrapper'',
       tb_line = Some ''return await fn(*args, **filtered_kwargs)''\<rparr>,
      \<lparr>tb_filename = ''example_usage.py'', tb_lineno = 32, tb_name = ''async_divide'',
       tb_line = Some ''return a / b''\<rparr>]"

definition async_zero_division :: exc where
  "async_zero_division =
     Exc ''ZeroDivisionError'' [''ArithmeticError'', ''Exception'', ''BaseException'', ''object'']
       ''division by zero'' None None False (Some async_traceback)"

definition async_divide :: "py_float target" where
  "async_divide =
     \<lparr>fn_name = ''async_divide'', fn_module = Some ''example_usage'',
      fn_code = Some (''example_usage.py'', 21), sig_parameters = Some [''a'', ''b'', ''kwargs''],
      fn_call = (\<lambda>args kwargs.
         case args of
           [PyInt a, PyInt b] \<Rightarrow>
             if b = 0 then Inl async_zero_division else Inr (Quotient a b)
         | _ \<Rightarrow> Inl bad_operands)\<rparr>"

definition show_event :: "pyval option target" where
  "show_event =
     \<lparr>fn_name = ''show_event'', fn_module = Some ''example_usage'',
      fn_code = Some (''example_usage.py'', 1), sig_parameters = Some [''event''],
      fn_call = (\<lambda>args kwargs. Inr (kwargs ''event''))\<rparr>"

text \<open>\<^verbatim>\<open>@error_decorator(custom_context={"error": 42})\<close> and
  \<^verbatim>\<open>@error_decorator(custom_context={"password": "hunter2"})\<close>.\<close>

definition custom_error :: decorator_kwargs where
  "custom_error = default_kwargs\<lparr>kw_custom_context := Some [''error'' \<mapsto> PyInt 42]\<rparr>"

definition custom_password :: decorator_kwargs where
  "custom_password = default_kwargs\<lparr>kw_custom_context := Some [''password'' \<mapsto> PyStr ''hunter2'']\<rparr>"

text \<open>\<^verbatim>\<open>report_error(ValueError, "manual report", location="checkout")\<close>.\<close>

definition location_kwargs :: report_kwargs where
  "location_kwargs = no_report_kwargs\<lparr>rk_other := [''location'' \<mapsto> PyStr ''checkout'']\<rparr>"

text \<open>\<^verbatim>\<open>report_error(ValueError, "manual report", password="call-secret")\<close>.\<close>

definition password_kwargs :: report_kwargs where
  "password_kwargs = no_report_kwargs\<lparr>rk_other := [''password'' \<mapsto> PyStr ''call-secret'']\<rparr>"

section \<open>Facts about the loops\<close>

declare walk_stack.simps [simp del]
declare exception_chain.simps [simp del]
declare string_of_nat.simps [simp del]

text \<open>The walk that starts from a traceback object ends at its first step.\<close>

lemma walk_stack_traceback: "walk_stack c l d fs (map_option TracebackObj t) i = []"
  by (cases t) (auto simp: walk_stack.simps)

text \<open>From any starting object, the walk appends at most as many frames as the depth allows.\<close>

lemma walk_stack_length: "int (length (walk_stack c l d fs fr i)) \<le> max 0 (d - i)"
proof (induction c l d fs fr i rule: walk_stack.induct)
  case (1 c l d fs fr i)
  show ?case
  proof (cases fr)
    case None
    then show ?thesis by (simp add: walk_stack.simps)
  next
    case (Some obj)
    show ?thesis
    proof (cases "i < d")
      case False
      with Some show ?thesis by (simp add: walk_stack.simps)
    next
      case True
      show ?thesis
      proof (cases "frame_of obj")
        case (Inl a)
        with Some True show ?thesis by (simp add: walk_stack.simps)
      next
        case (Inr f)
        from "1.IH"[OF Some True Inr] Some True Inr show ?thesis
          by (subst walk_stack.simps) simp
      qed
    qed
  qed
qed

lemma exception_chain_step:
  "i < 10 \<Longrightarrow> next_error e = Some (rel, nxt) \<Longrightarrow>
   exception_chain fmt (Some e) i =
     (chain_info fmt e i)\<lparr>link_relation := Some rel\<rparr> # exception_chain fmt (Some nxt) (i + 1)"
  by (subst exception_chain.simps) simp

lemma exception_chain_stop:
  "i < 10 \<Longrightarrow> next_error e = None \<Longrightarrow> exception_chain fmt (Some e) i = [chain_info fmt e i]"
  by (subst exception_chain.simps) simp

lemma exception_chain_cap: "\<not> i < 10 \<Longrightarrow> exception_chain fmt cur i = []"
  by (subst exception_chain.simps) (simp split: option.splits)

lemma exception_chain_length: "length (exception_chain fmt cur i) \<le> 10 - i"
proof (induction fmt cur i rule: exception_chain.induct)
  case (1 fmt cur i)
  show ?case
  proof (cases cur)
    case None
    then show ?thesis by (simp add: exception_chain.simps)
  next
    case (Some e)
    show ?thesis
    proof (cases "i < 10")
      case False
      then show ?thesis by (simp add: exception_chain_cap)
    next
      case True
      show ?thesis
      proof (cases "next_error e")
        case None
        with True show ?thesis unfolding \<open>cur = Some e\<close> by (simp add: exception_chain_stop)
      next
        case (Some p)
        obtain rel nxt where p: "p = (rel, nxt)" by (cases p)
        from "1.IH"[OF \<open>cur = Some e\<close> True Some[unfolded p] refl]
        have "length (exception_chain fmt (Some nxt) (i + 1)) \<le> 10 - (i + 1)" .
        with True Some p show ?thesis
          unfolding \<open>cur = Some e\<close> by (simp add: exception_chain_step)
      qed
    qed
  qed
qed

section \<open>Facts about the assembled dictionary\<close>

lemma collect_error_info_fails:
  "collect_error_info E tb_opt e ccc lvl cl d = Inl err \<Longrightarrow>
     err = UnicodeDecodeError \<and> ccc \<and> (\<exists>tb. tb_opt = Some tb \<and> tb \<noteq> [] \<and>
       files E (tb_filename (last tb)) = Undecodable)"
  by (auto simp: collect_error_info_def code_window_def Let_def
           split: option.splits if_splits file_read.splits sum.splits)

lemma collect_error_info_error:
  "collect_error_info E tb_opt e ccc lvl cl d = Inr r \<Longrightarrow>
     r ''error'' = Some (ErrorV \<lparr>err_type = exc_type e, err_message = exc_message e,
        err_timestamp = now E,
        err_exception_chain = exception_chain (format_exception E) (Some e) 0,
        err_level = lvl\<rparr>)"
  by (auto simp: collect_error_info_def Let_def split: sum.splits)

lemma collect_error_info_stack_trace:
  "collect_error_info E tb_opt e ccc lvl cl d = Inr r \<Longrightarrow>
     r ''stack_trace'' = Some (StackTraceV [])"
  by (auto simp: collect_error_info_def Let_def walk_stack_traceback split: sum.splits)

lemma collect_error_info_no_traceback:
  "collect_error_info E None e ccc lvl cl d =
     Inr [''error'' \<mapsto> ErrorV \<lparr>err_type = exc_type e, err_message = exc_message e,
             err_timestamp = now E,
             err_exception_chain = exception_chain (format_exception E) (Some e) 0,
             err_level = lvl\<rparr>,
          ''location'' \<mapsto> LocationV None,
          ''code_context'' \<mapsto> CodeContextV None,
          ''stack_trace'' \<mapsto> StackTraceV [],
          ''raw_traceback'' \<mapsto> RawTracebackV (format_exception E e),
          ''highlighted_code'' \<mapsto> HighlightedV None,
          ''configuration'' \<mapsto> ConfigurationV
             \<lparr>cfg_capture_code_context = ccc, cfg_capture_locals = cl,
              cfg_max_stack_depth = d, cfg_error_level = lvl\<rparr>]"
  by (simp add: collect_error_info_def Let_def walk_stack.simps)

section \<open>Facts about the context\<close>

lemma arg_entries_fold_other:
  "(\<forall>i. k \<noteq> ''arg_'' @ string_of_nat i) \<Longrightarrow>
   foldl (\<lambda>context (i, arg). context(''arg_'' @ string_of_nat i \<mapsto> Summary (summarize 50 arg)))
     m (enumerate n args) k = m k"
  by (induction args arbitrary: m n) auto

lemma arg_entries_other: "take 4 k \<noteq> ''arg_'' \<Longrightarrow> arg_entries args k = None"
  unfolding arg_entries_def by (subst arg_entries_fold_other) auto

lemma extract_context_info_key:
  "take 4 k \<noteq> ''arg_'' \<Longrightarrow>
   k \<notin> {''caller_function'', ''caller_filename'', ''caller_line_number''} \<Longrightarrow>
   extract_context_info E fn line args kwargs k = kw_entries kwargs k"
  by (simp add: extract_context_info_def arg_entries_other map_add_def split: option.splits)

lemma context_kwargs_key:
  "k \<noteq> ''event'' \<Longrightarrow> context_kwargs E D kwargs k = (kwargs ++ context_decorator_kwargs D) k"
  by (simp add: context_kwargs_def split: option.splits)

lemma decorated_function_info_dom:
  "decorated_function_info t k \<noteq> None \<Longrightarrow> take 19 k = ''decorated_function_''"
  by (auto simp: decorated_function_info_def split: if_splits)

lemma context_info_precedence:
  "context_info E D t args kwargs k =
     (case decorated_function_info t k of
        Some v \<Rightarrow> Some v
      | None \<Rightarrow>
          (case custom_context D k of
             Some x \<Rightarrow> Some (Raw x)
           | None \<Rightarrow> extract_context_info E ''_handle_exception'' 136 args (context_kwargs E D kwargs) k))"
  by (simp add: context_info_def map_add_def split: option.splits)

section \<open>Facts about the handler\<close>

lemma print_diag_fields [simp]:
  "delivered (print_diag d w) = delivered w"
  "scheduled (print_diag d w) = scheduled w"
  "loop_running (print_diag d w) = loop_running w"
  "error_handler (print_diag d w) = error_handler w"
  by (simp_all add: print_diag_def)

lemma call_error_handler_delivered:
  "delivered (call_error_handler r w) =
     (case error_handler w of
        None \<Rightarrow> delivered w
      | Some handler \<Rightarrow>
          (case handler of Coroutine \<Rightarrow> delivered w | Blocking call \<Rightarrow> delivered w @ [r]))"
  by (simp add: call_error_handler_def Let_def split: option.splits sink.splits)

lemma call_error_handler_scheduled:
  "scheduled (call_error_handler r w) =
     (case error_handler w of
        None \<Rightarrow> scheduled w
      | Some handler \<Rightarrow>
          (case handler of
             Coroutine \<Rightarrow> if loop_running w then scheduled w @ [r] else scheduled w
           | Blocking call \<Rightarrow> scheduled w))"
  by (simp add: call_error_handler_def Let_def split: option.splits sink.splits)

lemma capture_delivered:
  "delivered (capture E D t e args kwargs w) =
     (case collected E D e of
        Inl err \<Rightarrow> delivered w
      | Inr error_info \<Rightarrow>
          (case error_handler w of
             None \<Rightarrow> delivered w
           | Some handler \<Rightarrow>
               (case handler of
                  Coroutine \<Rightarrow> delivered w
                | Blocking call \<Rightarrow>
                    delivered w @ [error_info ++ context_info E D t args kwargs])))"
  by (simp add: capture_def Let_def call_error_handler_delivered
           split: sum.splits option.splits sink.splits)

lemma capture_scheduled:
  "scheduled (capture E D t e args kwargs w) =
     (case collected E D e of
        Inl err \<Rightarrow> scheduled w
      | Inr error_info \<Rightarrow>
          (case error_handler w of
             None \<Rightarrow> scheduled w
           | Some handler \<Rightarrow>
               (case handler of
                  Coroutine \<Rightarrow>
                    if loop_running w
                    then scheduled w @ [error_info ++ context_info E D t args kwargs]
                    else scheduled w
                | Blocking call \<Rightarrow> scheduled w)))"
  by (simp add: capture_def Let_def call_error_handler_scheduled
           split: sum.splits option.splits sink.splits)


lemma wrapper_captures:
  assumes "fn_call t args (filter_arguments t kwargs) = Inl e"
    and "\<not> list_ex (isinstance e) (ignore_errors D)"
    and "\<not> list_ex (isinstance e) (propagate_errors D)"
  shows "wrapper E D t args kwargs w = (Sentinel (exc_type e), capture E D t e args kwargs w)"
  using assms by (simp add: wrapper_def handle_exception_def)

lemma top_level_plain:
  assumes "k \<in> set top_level_fields"
  shows "take 4 k \<noteq> ''arg_''"
    and "k \<notin> {''caller_function'', ''caller_filename'', ''caller_line_number''}"
    and "k \<noteq> ''event''"
    and "\<not> sensitive_key k"
  using assms
  by (auto simp: top_level_fields_def sensitive_key_def starts_with_underscore_def)

lemma top_level_not_decorated:
  "k \<in> set top_level_fields \<Longrightarrow> decorated_function_info t k = None"
  by (auto simp: top_level_fields_def decorated_function_info_def)

lemma top_level_in_context:
  assumes "k \<in> set top_level_fields"
  shows "context_info E D t args kwargs k =
     (case custom_context D k of
        Some x \<Rightarrow> Some (Raw x)
      | None \<Rightarrow>
          (case (kwargs ++ context_decorator_kwargs D) k of
             Some v \<Rightarrow> Some (Summary (summarize 100 v))
           | None \<Rightarrow> None))"
proof -
  note plain = top_level_plain [OF assms]
  define m where "m = kwargs ++ context_decorator_kwargs D"
  have dec: "decorated_function_info t k = None"
    using assms by (rule top_level_not_decorated)
  have "extract_context_info E ''_handle_exception'' 136 args (context_kwargs E D kwargs) k =
          kw_entries (context_kwargs E D kwargs) k"
    using plain(1,2) by (rule extract_context_info_key)
  moreover have "context_kwargs E D kwargs k = m k"
    unfolding m_def using plain(3) by (rule context_kwargs_key)
  ultimately have "extract_context_info E ''_handle_exception'' 136 args (context_kwargs E D kwargs) k =
      (case m k of Some v \<Rightarrow> Some (Summary (summarize 100 v)) | None \<Rightarrow> None)"
    using plain(4) by (simp add: kw_entries_def split: option.splits)
  then show ?thesis
    unfolding m_def [symmetric]
    by (simp add: context_info_precedence dec split: option.splits)
qed

lemma default_context_empty [simp]:
  "context_decorator_kwargs default_kwargs = Map.empty"
  "custom_context default_kwargs = Map.empty"
  by (simp_all add: context_decorator_kwargs_def custom_context_def default_kwargs_def fun_eq_iff)

lemma divide_raises:
  "fn_call divide_numbers [PyInt 10, PyInt 0] (filter_arguments divide_numbers kwargs)
     = Inl zero_division"
  by (simp add: divide_numbers_def)

lemma zero_division_fields [simp]:
  "exc_type zero_division = ''ZeroDivisionError''"
  "exc_ancestors zero_division = [''ArithmeticError'', ''Exception'', ''BaseException'', ''object'']"
  "exc_message zero_division = ''division by zero''"
  "exc_traceback zero_division = Some divide_traceback"
  "next_error zero_division = None"
  by (simp_all add: zero_division_def next_error_def)

lemma scenario_collected:
  "files E = (\<lambda>filename. Unreadable) \<Longrightarrow> \<exists>r. collected E D e = Inr r"
proof (cases "collected E D e")
  case (Inl err)
  assume "files E = (\<lambda>filename. Unreadable)"
  with collect_error_info_fails [OF Inl [unfolded collected_def]] show ?thesis by simp
next
  case (Inr r)
  then show ?thesis by blast
qed

lemma wrapper_delivers:
  assumes "fn_call t args (filter_arguments t kwargs) = Inl e"
    and "\<not> list_ex (isinstance e) (ignore_errors D)"
    and "\<not> list_ex (isinstance e) (propagate_errors D)"
    and "collected E D e = Inr error_info"
    and "error_handler w = Some (Blocking h)"
  shows "delivered (snd (wrapper E D t args kwargs w))
           = delivered w @ [error_info ++ context_info E D t args kwargs]"
  using assms by (simp add: wrapper_captures capture_delivered)

lemma wrapper_schedules:
  assumes "fn_call t args (filter_arguments t kwargs) = Inl e"
    and "\<not> list_ex (isinstance e) (ignore_errors D)"
    and "\<not> list_ex (isinstance e) (propagate_errors D)"
    and "collected E D e = Inr error_info"
    and "error_handler w = Some Coroutine"
  shows "delivered (snd (wrapper E D t args kwargs w)) = delivered w"
    and "scheduled (snd (wrapper E D t args kwargs w)) =
           (if loop_running w
            then scheduled w @ [error_info ++ context_info E D t args kwargs]
            else scheduled w)"
  using assms by (simp_all add: wrapper_captures capture_delivered capture_scheduled)

lemma sensitive_plain:
  assumes "sensitive_key k"
  shows "take 4 k \<noteq> ''arg_''"
    and "k \<notin> {''caller_function'', ''caller_filename'', ''caller_line_number''}"
    and "k \<noteq> ''event''"
    and "k \<notin> {''error_level'', ''capture_locals'', ''max_stack_depth''}"
  using assms
  by (auto simp: sensitive_key_def starts_with_underscore_def split: list.splits)

lemma sensitive_not_decorated: "sensitive_key k \<Longrightarrow> decorated_function_info t k = None"
  by (auto simp: sensitive_key_def starts_with_underscore_def decorated_function_info_def
           split: list.splits)

lemma sensitive_extracted:
  assumes "sensitive_key k"
  shows "extract_context_info E fn line args kwargs k =
           (case kwargs k of None \<Rightarrow> None | Some v \<Rightarrow> Some (Summary ''<filtered>''))"
  using sensitive_plain(1,2) [OF assms] assms
  by (simp add: extract_context_info_key kw_entries_def split: option.splits)

lemma sensitive_in_context:
  assumes "sensitive_key k"
  shows "context_info E D t args kwargs k =
     (case custom_context D k of
        Some x \<Rightarrow> Some (Raw x)
      | None \<Rightarrow>
          (case (kwargs ++ context_decorator_kwargs D) k of
             Some v \<Rightarrow> Some (Summary ''<filtered>'')
           | None \<Rightarrow> None))"
proof -
  define m where "m = kwargs ++ context_decorator_kwargs D"
  have "context_kwargs E D kwargs k = m k"
    unfolding m_def using sensitive_plain(3) [OF assms] by (rule context_kwargs_key)
  then have "extract_context_info E ''_handle_exception'' 136 args (context_kwargs E D kwargs) k =
      (case m k of Some v \<Rightarrow> Some (Summary ''<filtered>'') | None \<Rightarrow> None)"
    by (simp add: sensitive_extracted [OF assms] split: option.splits)
  then show ?thesis
    unfolding m_def [symmetric]
    by (simp add: context_info_precedence sensitive_not_decorated [OF assms] split: option.splits)
qed

lemma report_context_key:
  "take 4 k \<noteq> ''arg_'' \<Longrightarrow>
   k \<notin> {''caller_function'', ''caller_filename'', ''caller_line_number''} \<Longrightarrow>
   k \<notin> {''error_level'', ''capture_locals'', ''max_stack_depth''} \<Longrightarrow>
   report_context E K k = kw_entries (rk_other K) k"
  by (simp add: report_context_def extract_context_info_key kw_entries_def)

lemma local_vars_sensitive:
  "sensitive_local k \<Longrightarrow> (k, s) \<in> set (local_vars locals) \<Longrightarrow> s = ''<filtered>''"
  by (auto simp: local_vars_def)

lemma sensitive_key_local: "sensitive_key k \<Longrightarrow> sensitive_local k"
  by (auto simp: sensitive_key_def sensitive_local_def)

lemma async_divide_raises:
  "fn_call async_divide [PyInt 5, PyInt 0] (filter_arguments async_divide kwargs)
     = Inl async_zero_division"
  by (simp add: async_divide_def)

lemma async_zero_division_type [simp]: "exc_type async_zero_division = ''ZeroDivisionError''"
  by (simp add: async_zero_division_def)

lemma no_classes_listed:
  "kw_ignore_errors D = None \<Longrightarrow> \<not> list_ex (isinstance e) (ignore_errors D)"
  "kw_propagate_errors D = None \<Longrightarrow> \<not> list_ex (isinstance e) (propagate_errors D)"
  by (simp_all add: ignore_errors_def propagate_errors_def)

section \<open>The captured exception\<close>

text \<open>
  Claim C1, as stated, fails in two ways. When the context has a key named
  \<^verbatim>\<open>error\<close>: \<^verbatim>\<open>async_divide(5, 0, error="boom")\<close> returns \<^verbatim>\<open>"ZeroDivisionError"\<close> and
  the blocking handler is called once, but the report it receives holds the string
  \<^verbatim>\<open>"boom"\<close> under \<^verbatim>\<open>error\<close>, so it has no \<^verbatim>\<open>error.type\<close>. When the registered handler
  is a coroutine function and no event loop is running: \<^verbatim>\<open>divide_numbers(10, 0)\<close>
  returns \<^verbatim>\<open>"ZeroDivisionError"\<close>, the handler is never run and no task is scheduled
  for it.
\<close>

theorem error_key_counterexample:
  "fst (wrapper scenario_env default_kwargs async_divide [PyInt 5, PyInt 0]
          [''error'' \<mapsto> PyStr ''boom''] scenario_world) = Sentinel ''ZeroDivisionError'' \<and>
   map (field ''error'')
     (delivered (snd (wrapper scenario_env default_kwargs async_divide [PyInt 5, PyInt 0]
        [''error'' \<mapsto> PyStr ''boom''] scenario_world))) = [Some (Summary ''boom'')] \<and>
   map error_type_of
     (delivered (snd (wrapper scenario_env default_kwargs async_divide [PyInt 5, PyInt 0]
        [''error'' \<mapsto> PyStr ''boom''] scenario_world))) = [None] \<and>
   error_handler coroutine_world = Some Coroutine \<and>
   fst (wrapper scenario_env default_kwargs divide_numbers [PyInt 10, PyInt 0] Map.empty
          coroutine_world) = Sentinel ''ZeroDivisionError'' \<and>
   delivered (snd (wrapper scenario_env default_kwargs divide_numbers [PyInt 10, PyInt 0]
          Map.empty coroutine_world)) = [] \<and>
   scheduled (snd (wrapper scenario_env default_kwargs divide_numbers [PyInt 10, PyInt 0]
          Map.empty coroutine_world)) = []"
proof -
  let ?kw = "[''error'' \<mapsto> PyStr ''boom'']"
  let ?ctx = "context_info scenario_env default_kwargs async_divide [PyInt 5, PyInt 0] ?kw"
  obtain r where r: "collected scenario_env default_kwargs async_zero_division = Inr r"
    using scenario_collected [of scenario_env default_kwargs async_zero_division]
    by (auto simp: scenario_env_def)
  have i: "\<not> list_ex (isinstance x) (ignore_errors default_kwargs)"
    and p: "\<not> list_ex (isinstance x) (propagate_errors default_kwargs)" for x
    by (simp_all add: no_classes_listed default_kwargs_def)
  have s: "fst (wrapper scenario_env default_kwargs async_divide [PyInt 5, PyInt 0] ?kw
             scenario_world) = Sentinel ''ZeroDivisionError''"
    using wrapper_captures [where E = scenario_env and w = scenario_world,
            OF async_divide_raises i p, of ?kw]
    by simp
  have d: "delivered (snd (wrapper scenario_env default_kwargs async_divide [PyInt 5, PyInt 0]
             ?kw scenario_world)) = [r ++ ?ctx]"
    using wrapper_delivers [where w = scenario_world, OF async_divide_raises i p r, of _ ?kw]
    by (simp add: scenario_world_def)
  have "?ctx ''error'' = Some (Summary ''boom'')"
    by (simp add: top_level_in_context top_level_fields_def summarize_def)
  then have f: "field ''error'' (r ++ ?ctx) = Some (Summary ''boom'')"
    and t: "error_type_of (r ++ ?ctx) = None"
    by (simp_all add: field_def error_type_of_def)
  obtain r' where r': "collected scenario_env default_kwargs zero_division = Inr r'"
    using scenario_collected [of scenario_env default_kwargs zero_division]
    by (auto simp: scenario_env_def)
  have c: "error_handler coroutine_world = Some Coroutine"
    and l: "\<not> loop_running coroutine_world"
    and e: "delivered coroutine_world = []" "scheduled coroutine_world = []"
    by (simp_all add: coroutine_world_def scenario_world_def)
  have s': "fst (wrapper scenario_env default_kwargs divide_numbers [PyInt 10, PyInt 0] Map.empty
             coroutine_world) = Sentinel ''ZeroDivisionError''"
    using wrapper_captures [where E = scenario_env and w = coroutine_world,
            OF divide_raises i p, of Map.empty]
    by simp
  have n: "delivered (snd (wrapper scenario_env default_kwargs divide_numbers [PyInt 10, PyInt 0]
          Map.empty coroutine_world)) = []"
    "scheduled (snd (wrapper scenario_env default_kwargs divide_numbers [PyInt 10, PyInt 0]
          Map.empty coroutine_world)) = []"
    using wrapper_schedules [where w = coroutine_world and kwargs = Map.empty,
            OF divide_raises i p r' c] l e
    by simp_all
  from s d f t c s' n show ?thesis by simp
qed

text \<open>
  Claim C1, amended. When the decorated function raises an exception \<open>e\<close> that matches
  neither list, the wrapped call does not raise and returns the name of the class of
  \<open>e\<close>, also when the assembly of the report raises; a blocking handler is called at
  most once. When a blocking handler is registered and the assembly does not raise, it
  is called exactly once, with the assembled fields overridden by the context, and
  \<^verbatim>\<open>error.type\<close> of that report is the name of the class of \<open>e\<close> unless the context has
  an entry named \<^verbatim>\<open>error\<close> (a keyword of the call or of the decorator, or a key of
  \<^verbatim>\<open>custom_context\<close>). When the registered handler is a coroutine function, it is not
  run during the call: a task with that report is scheduled for it when an event loop is
  running, and nothing is scheduled otherwise. When the assembly raises, nothing is
  handed to the handler and nothing is scheduled.
\<close>

theorem captured_fault_returns_sentinel:
  assumes "fn_call t args (filter_arguments t kwargs) = Inl e"
    and "\<not> list_ex (isinstance e) (ignore_errors D)"
    and "\<not> list_ex (isinstance e) (propagate_errors D)"
  shows "fst (wrapper E D t args kwargs w) = Sentinel (exc_type e) \<and>
         (delivered (snd (wrapper E D t args kwargs w)) = delivered w \<or>
          (\<exists>r. delivered (snd (wrapper E D t args kwargs w)) = delivered w @ [r])) \<and>
         (\<forall>error_info h.
            collected E D e = Inr error_info \<and> error_handler w = Some (Blocking h) \<longrightarrow>
              delivered (snd (wrapper E D t args kwargs w))
                = delivered w @ [error_info ++ context_info E D t args kwargs] \<and>
              (custom_context D ''error'' = None \<and>
               (kwargs ++ context_decorator_kwargs D) ''error'' = None \<longrightarrow>
                 error_type_of (error_info ++ context_info E D t args kwargs)
                   = Some (exc_type e))) \<and>
         (\<forall>error_info.
            collected E D e = Inr error_info \<and> error_handler w = Some Coroutine \<longrightarrow>
              delivered (snd (wrapper E D t args kwargs w)) = delivered w \<and>
              scheduled (snd (wrapper E D t args kwargs w)) =
                (if loop_running w
                 then scheduled w @ [error_info ++ context_info E D t args kwargs]
                 else scheduled w)) \<and>
         (\<forall>err. collected E D e = Inl err \<longrightarrow>
            delivered (snd (wrapper E D t args kwargs w)) = delivered w \<and>
            scheduled (snd (wrapper E D t args kwargs w)) = scheduled w)"
proof -
  note w = wrapper_captures [OF assms, of E w]
  have sentinel: "fst (wrapper E D t args kwargs w) = Sentinel (exc_type e)"
    by (simp add: w)
  have once: "delivered (snd (wrapper E D t args kwargs w)) = delivered w \<or>
          (\<exists>r. delivered (snd (wrapper E D t args kwargs w)) = delivered w @ [r])"
    by (simp add: w capture_delivered split: sum.splits option.splits sink.splits)
  have report: "delivered (snd (wrapper E D t args kwargs w))
                = delivered w @ [error_info ++ context_info E D t args kwargs] \<and>
              (custom_context D ''error'' = None \<and>
               (kwargs ++ context_decorator_kwargs D) ''error'' = None \<longrightarrow>
                 error_type_of (error_info ++ context_info E D t args kwargs)
                   = Some (exc_type e))"
    if c: "collected E D e = Inr error_info \<and> error_handler w = Some (Blocking h)"
    for error_info h
  proof -
    have d: "delivered (snd (wrapper E D t args kwargs w))
                = delivered w @ [error_info ++ context_info E D t args kwargs]"
      using assms c by (simp add: wrapper_delivers)
    have ty: "error_type_of (error_info ++ context_info E D t args kwargs) = Some (exc_type e)"
      if none: "custom_context D ''error'' = None \<and>
               (kwargs ++ context_decorator_kwargs D) ''error'' = None"
    proof -
      define m where "m = kwargs ++ context_decorator_kwargs D"
      have "''error'' \<in> set top_level_fields"
        by (simp add: top_level_fields_def)
      then have "context_info E D t args kwargs ''error'' =
            (case custom_context D ''error'' of
               Some x \<Rightarrow> Some (Raw x)
             | None \<Rightarrow>
                 (case m ''error'' of Some v \<Rightarrow> Some (Summary (summarize 100 v)) | None \<Rightarrow> None))"
        unfolding m_def by (rule top_level_in_context)
      moreover have "m ''error'' = None" "custom_context D ''error'' = None"
        using none by (simp_all only: m_def)
      ultimately have "context_info E D t args kwargs ''error'' = None"
        by simp
      moreover have "\<exists>rec. error_info ''error'' = Some (ErrorV rec) \<and> err_type rec = exc_type e"
      proof -
        from c have "collect_error_info E (exc_traceback e) e (capture_code_context D)
            (error_level D) (capture_locals D) (max_stack_depth D) = Inr error_info"
          by (simp add: collected_def)
        from collect_error_info_error [OF this] show ?thesis by simp
      qed
      ultimately show ?thesis
        by (auto simp: error_type_of_def map_add_def)
    qed
    from d ty show ?thesis by blast
  qed
  have task: "delivered (snd (wrapper E D t args kwargs w)) = delivered w \<and>
              scheduled (snd (wrapper E D t args kwargs w)) =
                (if loop_running w
                 then scheduled w @ [error_info ++ context_info E D t args kwargs]
                 else scheduled w)"
    if c: "collected E D e = Inr error_info \<and> error_handler w = Some Coroutine" for error_info
    using wrapper_schedules [OF assms, of E error_info w] c by blast
  have failed: "delivered (snd (wrapper E D t args kwargs w)) = delivered w \<and>
                scheduled (snd (wrapper E D t args kwargs w)) = scheduled w"
    if "collected E D e = Inl err" for err
    using that by (simp add: w capture_delivered capture_scheduled)
  from sentinel once report task failed show ?thesis by blast
qed

theorem captured_fault_returns_sentinel_witness:
  "fn_call divide_numbers [PyInt 10, PyInt 0] (filter_arguments divide_numbers Map.empty)
     = Inl zero_division \<and>
   \<not> list_ex (isinstance zero_division) (ignore_errors default_kwargs) \<and>
   \<not> list_ex (isinstance zero_division) (propagate_errors default_kwargs) \<and>
   (\<exists>error_info. collected scenario_env default_kwargs zero_division = Inr error_info) \<and>
   error_handler scenario_world = Some (Blocking (\<lambda>r. False)) \<and>
   custom_context default_kwargs ''error'' = None \<and>
   (Map.empty ++ context_decorator_kwargs default_kwargs) ''error'' = None \<and>
   fst (wrapper scenario_env default_kwargs divide_numbers [PyInt 10, PyInt 0] Map.empty
          scenario_world) = Sentinel ''ZeroDivisionError'' \<and>
   map error_type_of
     (delivered (snd (wrapper scenario_env default_kwargs divide_numbers [PyInt 10, PyInt 0]
        Map.empty scenario_world))) = [Some ''ZeroDivisionError''] \<and>
   loop_running (coroutine_world\<lparr>loop_running := True\<rparr>) \<and>
   length (scheduled (snd (wrapper scenario_env default_kwargs divide_numbers
        [PyInt 10, PyInt 0] Map.empty (coroutine_world\<lparr>loop_running := True\<rparr>)))) = 1"
proof -
  obtain r where r: "collected scenario_env default_kwargs zero_division = Inr r"
    using scenario_collected [of scenario_env default_kwargs zero_division]
    by (auto simp: scenario_env_def)
  have i: "\<not> list_ex (isinstance zero_division) (ignore_errors default_kwargs)"
    and p: "\<not> list_ex (isinstance zero_division) (propagate_errors default_kwargs)"
    by (simp_all add: no_classes_listed default_kwargs_def)
  have h: "error_handler scenario_world = Some (Blocking (\<lambda>r. False))"
    by (simp add: scenario_world_def)
  have n: "custom_context default_kwargs ''error'' = None"
    "(Map.empty ++ context_decorator_kwargs default_kwargs) ''error'' = None"
    by simp_all
  note inst = captured_fault_returns_sentinel [where E = scenario_env and w = scenario_world,
      OF divide_raises i p, of Map.empty]
  from inst have s: "fst (wrapper scenario_env default_kwargs divide_numbers [PyInt 10, PyInt 0]
          Map.empty scenario_world) = Sentinel ''ZeroDivisionError''"
    by simp
  from inst r h n have "delivered (snd (wrapper scenario_env default_kwargs divide_numbers
        [PyInt 10, PyInt 0] Map.empty scenario_world))
      = delivered scenario_world @
          [r ++ context_info scenario_env default_kwargs divide_numbers [PyInt 10, PyInt 0] Map.empty]"
    and "error_type_of
          (r ++ context_info scenario_env default_kwargs divide_numbers [PyInt 10, PyInt 0] Map.empty)
        = Some (exc_type zero_division)"
    by blast+
  then have b: "map error_type_of
     (delivered (snd (wrapper scenario_env default_kwargs divide_numbers [PyInt 10, PyInt 0]
        Map.empty scenario_world))) = [Some ''ZeroDivisionError'']"
    by (simp add: scenario_world_def)
  let ?w = "coroutine_world\<lparr>loop_running := True\<rparr>"
  have c: "error_handler ?w = Some Coroutine" and l: "loop_running ?w"
    and e: "scheduled ?w = []"
    by (simp_all add: coroutine_world_def scenario_world_def)
  note inst' = captured_fault_returns_sentinel [where E = scenario_env and w = ?w,
      OF divide_raises i p, of Map.empty]
  from inst' r c have "scheduled (snd (wrapper scenario_env default_kwargs divide_numbers
        [PyInt 10, PyInt 0] Map.empty ?w)) =
      (if loop_running ?w
       then scheduled ?w @
         [r ++ context_info scenario_env default_kwargs divide_numbers [PyInt 10, PyInt 0] Map.empty]
       else scheduled ?w)"
    by blast
  with l e have t: "length (scheduled (snd (wrapper scenario_env default_kwargs divide_numbers
        [PyInt 10, PyInt 0] Map.empty ?w))) = 1"
    by simp
  from divide_raises [of Map.empty] i p r h n s b l t show ?thesis by blast
qed

section \<open>Classification of the caught exception\<close>

text \<open>
  Claim C2. When the decorated function raises \<open>e\<close>, the wrapper looks at the ignore list
  first: if \<open>e\<close> is an instance of one of its classes (its own class or an ancestor), the
  call returns the name of the class of \<open>e\<close> and nothing is handed to the handler, even
  when \<open>e\<close> also matches the propagate list. Otherwise, if \<open>e\<close> is an instance of a class
  of the propagate list, \<open>e\<close> itself is raised again and nothing is handed to the handler.
  Otherwise the report is assembled by \<open>capture\<close>.
\<close>

theorem classification_precedence:
  assumes "fn_call t args (filter_arguments t kwargs) = Inl e"
  shows "((\<exists>c \<in> set (ignore_errors D). c = exc_type e \<or> c \<in> set (exc_ancestors e)) \<longrightarrow>
            wrapper E D t args kwargs w = (Sentinel (exc_type e), w)) \<and>
         (\<not> (\<exists>c \<in> set (ignore_errors D). c = exc_type e \<or> c \<in> set (exc_ancestors e)) \<and>
          (\<exists>c \<in> set (propagate_errors D). c = exc_type e \<or> c \<in> set (exc_ancestors e)) \<longrightarrow>
            wrapper E D t args kwargs w = (Raised e, w)) \<and>
         (\<not> (\<exists>c \<in> set (ignore_errors D). c = exc_type e \<or> c \<in> set (exc_ancestors e)) \<and>
          \<not> (\<exists>c \<in> set (propagate_errors D). c = exc_type e \<or> c \<in> set (exc_ancestors e)) \<longrightarrow>
            wrapper E D t args kwargs w = (Sentinel (exc_type e), capture E D t e args kwargs w))"
  using assms
  by (simp add: wrapper_def handle_exception_def list_ex_iff isinstance_def)

theorem classification_precedence_witness:
  "fn_call divide_numbers [PyInt 10, PyInt 0] (filter_arguments divide_numbers Map.empty)
     = Inl zero_division \<and>
   wrapper scenario_env ignore_and_propagate divide_numbers [PyInt 10, PyInt 0] Map.empty
       scenario_world
     = (Sentinel ''ZeroDivisionError'', scenario_world) \<and>
   wrapper scenario_env propagate_arithmetic divide_numbers [PyInt 10, PyInt 0] Map.empty
       scenario_world
     = (Raised zero_division, scenario_world) \<and>
   wrapper scenario_env default_kwargs divide_numbers [PyInt 10, PyInt 0] Map.empty
       scenario_world
     = (Sentinel ''ZeroDivisionError'',
        capture scenario_env default_kwargs divide_numbers zero_division [PyInt 10, PyInt 0]
          Map.empty scenario_world)"
proof -
  have call: "fn_call divide_numbers [PyInt 10, PyInt 0] (filter_arguments divide_numbers Map.empty)
     = Inl zero_division"
    by (simp add: divide_numbers_def)
  have "wrapper scenario_env ignore_and_propagate divide_numbers [PyInt 10, PyInt 0] Map.empty
       scenario_world = (Sentinel ''ZeroDivisionError'', scenario_world)"
    using classification_precedence [OF call, of ignore_and_propagate scenario_env scenario_world]
    by (simp add: ignore_and_propagate_def default_kwargs_def ignore_errors_def
          propagate_errors_def zero_division_def)
  moreover have "wrapper scenario_env propagate_arithmetic divide_numbers [PyInt 10, PyInt 0]
       Map.empty scenario_world = (Raised zero_division, scenario_world)"
    using classification_precedence [OF call, of propagate_arithmetic scenario_env scenario_world]
    by (simp add: propagate_arithmetic_def default_kwargs_def ignore_errors_def
          propagate_errors_def zero_division_def)
  moreover have "wrapper scenario_env default_kwargs divide_numbers [PyInt 10, PyInt 0] Map.empty
       scenario_world
     = (Sentinel ''ZeroDivisionError'',
        capture scenario_env default_kwargs divide_numbers zero_division [PyInt 10, PyInt 0]
          Map.empty scenario_world)"
    using classification_precedence [OF call, of default_kwargs scenario_env scenario_world]
    by (simp add: default_kwargs_def ignore_errors_def propagate_errors_def zero_division_def)
  ultimately show ?thesis using call by simp
qed


section \<open>The stack trace of a captured exception\<close>

text \<open>
  Claim C3. The claim expects one frame record per visited frame and, for
  \<^verbatim>\<open>divide_numbers(10, 0)\<close> under the default configuration, a report with a stack trace
  that is not empty. The call returns \<^verbatim>\<open>"ZeroDivisionError"\<close> and the handler receives
  one report whose error has that type and the message of a division by zero, but the
  stack trace of the report is empty: the walk starts from the traceback object, whose
  \<^verbatim>\<open>f_code\<close> cannot be read, and the loop ends before it appends anything.
\<close>

theorem divide_by_zero_stack_trace_empty:
  "fst (wrapper scenario_env default_kwargs divide_numbers [PyInt 10, PyInt 0] Map.empty
          scenario_world) = Sentinel ''ZeroDivisionError'' \<and>
   map error_type_of
     (delivered (snd (wrapper scenario_env default_kwargs divide_numbers [PyInt 10, PyInt 0]
        Map.empty scenario_world))) = [Some ''ZeroDivisionError''] \<and>
   map stack_trace_of
     (delivered (snd (wrapper scenario_env default_kwargs divide_numbers [PyInt 10, PyInt 0]
        Map.empty scenario_world))) = [Some []]"
proof -
  let ?ctx = "context_info scenario_env default_kwargs divide_numbers [PyInt 10, PyInt 0] Map.empty"
  have w: "wrapper scenario_env default_kwargs divide_numbers [PyInt 10, PyInt 0] Map.empty
             scenario_world
           = (Sentinel ''ZeroDivisionError'',
              capture scenario_env default_kwargs divide_numbers zero_division
                [PyInt 10, PyInt 0] Map.empty scenario_world)"
    using wrapper_captures [where D = default_kwargs and E = scenario_env and w = scenario_world,
            OF divide_raises]
    by (simp add: default_kwargs_def ignore_errors_def propagate_errors_def isinstance_def)
  obtain r where r: "collected scenario_env default_kwargs zero_division = Inr r"
    using scenario_collected [of scenario_env default_kwargs] by (auto simp: scenario_env_def)
  have d: "delivered (capture scenario_env default_kwargs divide_numbers zero_division
             [PyInt 10, PyInt 0] Map.empty scenario_world) = [r ++ ?ctx]"
    by (simp add: capture_delivered r scenario_world_def)
  have "?ctx ''error'' = None" "?ctx ''stack_trace'' = None"
    by (simp_all add: top_level_in_context top_level_fields_def)
  moreover have "r ''error'' = Some (ErrorV \<lparr>err_type = ''ZeroDivisionError'',
       err_message = ''division by zero'', err_timestamp = now scenario_env,
       err_exception_chain = exception_chain (format_exception scenario_env) (Some zero_division) 0,
       err_level = error_level default_kwargs\<rparr>)"
    using collect_error_info_error [OF r [unfolded collected_def]] by simp
  moreover have "r ''stack_trace'' = Some (StackTraceV [])"
    using collect_error_info_stack_trace [OF r [unfolded collected_def]] .
  ultimately have "error_type_of (r ++ ?ctx) = Some ''ZeroDivisionError''"
    and "stack_trace_of (r ++ ?ctx) = Some []"
    by (simp_all add: error_type_of_def stack_trace_of_def map_add_def)
  with w d show ?thesis by simp
qed


section \<open>Sensitive keys\<close>

text \<open>
  Claim C4, as stated, fails for a sensitive key of \<^verbatim>\<open>custom_context\<close>: with
  \<^verbatim>\<open>custom_context={"password": "hunter2"}\<close> the report of
  \<^verbatim>\<open>async_divide(5, 0, password="call-secret")\<close> handed to the handler holds
  \<^verbatim>\<open>"hunter2"\<close> under \<^verbatim>\<open>password\<close>, not the placeholder.
\<close>

theorem custom_password_counterexample:
  "sensitive_key ''password'' \<and>
   map (field ''password'')
     (delivered (snd (wrapper scenario_env custom_password async_divide [PyInt 5, PyInt 0]
        [''password'' \<mapsto> PyStr ''call-secret''] scenario_world)))
     = [Some (Raw (PyStr ''hunter2''))]"
proof -
  let ?kw = "[''password'' \<mapsto> PyStr ''call-secret'']"
  have s: "sensitive_key ''password''"
    by (simp add: sensitive_key_def)
  obtain r where r: "collected scenario_env custom_password async_zero_division = Inr r"
    using scenario_collected [of scenario_env custom_password async_zero_division]
    by (auto simp: scenario_env_def)
  have "delivered (snd (wrapper scenario_env custom_password async_divide [PyInt 5, PyInt 0]
          ?kw scenario_world))
        = [r ++ context_info scenario_env custom_password async_divide [PyInt 5, PyInt 0] ?kw]"
    using wrapper_delivers [where w = scenario_world and kwargs = ?kw,
            OF async_divide_raises _ _ r]
    by (simp add: no_classes_listed custom_password_def default_kwargs_def scenario_world_def)
  moreover have "context_info scenario_env custom_password async_divide [PyInt 5, PyInt 0]
                   ?kw ''password'' = Some (Raw (PyStr ''hunter2''))"
    by (simp add: sensitive_in_context [OF s] custom_context_def custom_password_def)
  ultimately show ?thesis using s by (simp add: field_def)
qed

text \<open>
  Claim C4, amended. Let \<open>k\<close> be a sensitive key: one of \<^verbatim>\<open>password\<close>, \<^verbatim>\<open>token\<close>,
  \<^verbatim>\<open>secret\<close>, \<^verbatim>\<open>key\<close>, \<^verbatim>\<open>api_key\<close>, \<^verbatim>\<open>auth_token\<close>, or a key that starts with an
  underscore. The context extractor renders every keyword entry under \<open>k\<close> as
  \<^verbatim>\<open><filtered>\<close>, whatever its value. In the report of a wrapped call, a keyword of
  the call or of the decorator under \<open>k\<close> appears as \<^verbatim>\<open><filtered>\<close> unless
  \<^verbatim>\<open>custom_context\<close> has the key \<open>k\<close>; an entry of \<^verbatim>\<open>custom_context\<close> under \<open>k\<close>
  appears with its own value, unredacted. In the report of \<^verbatim>\<open>report_error\<close> a
  keyword under \<open>k\<close> appears as \<^verbatim>\<open><filtered>\<close>. A captured local variable named \<open>k\<close>
  is rendered as \<^verbatim>\<open><filtered>\<close>.
\<close>

theorem sensitive_values_filtered:
  assumes "sensitive_key k"
  shows "(\<forall>v. kw k = Some v \<longrightarrow>
            extract_context_info E caller line args kw k = Some (Summary ''<filtered>'')) \<and>
         (\<forall>v. (kwargs ++ context_decorator_kwargs D) k = Some v \<and> custom_context D k = None \<longrightarrow>
            (error_info ++ context_info E D t args kwargs) k = Some (Summary ''<filtered>'')) \<and>
         (\<forall>x. custom_context D k = Some x \<longrightarrow>
            (error_info ++ context_info E D t args kwargs) k = Some (Raw x)) \<and>
         (\<forall>v. rk_other K k = Some v \<longrightarrow>
            (error_info ++ report_context E K) k = Some (Summary ''<filtered>'')) \<and>
         (\<forall>s. (k, s) \<in> set (local_vars locals) \<longrightarrow> s = ''<filtered>'')"
proof -
  have extracted: "extract_context_info E caller line args kw k = Some (Summary ''<filtered>'')"
    if "kw k = Some v" for v
    using that by (simp add: sensitive_extracted [OF assms])
  have keyword: "(error_info ++ context_info E D t args kwargs) k = Some (Summary ''<filtered>'')"
    if h: "(kwargs ++ context_decorator_kwargs D) k = Some v \<and> custom_context D k = None" for v
  proof -
    define m where "m = kwargs ++ context_decorator_kwargs D"
    have "context_info E D t args kwargs k =
       (case custom_context D k of
          Some x \<Rightarrow> Some (Raw x)
        | None \<Rightarrow> (case m k of Some v \<Rightarrow> Some (Summary ''<filtered>'') | None \<Rightarrow> None))"
      unfolding m_def using assms by (rule sensitive_in_context)
    moreover have "m k = Some v" "custom_context D k = None"
      using h by (simp_all only: m_def)
    ultimately have "context_info E D t args kwargs k = Some (Summary ''<filtered>'')"
      by simp
    then show ?thesis by (simp add: map_add_def)
  qed
  have custom: "(error_info ++ context_info E D t args kwargs) k = Some (Raw x)"
    if "custom_context D k = Some x" for x
    using that by (simp add: map_add_def sensitive_in_context [OF assms])
  have manual: "(error_info ++ report_context E K) k = Some (Summary ''<filtered>'')"
    if "rk_other K k = Some v" for v
  proof -
    have "report_context E K k = kw_entries (rk_other K) k"
      using sensitive_plain(1,2,4) [OF assms] by (rule report_context_key)
    with that assms show ?thesis by (simp add: kw_entries_def map_add_def)
  qed
  have locals: "s = ''<filtered>''" if "(k, s) \<in> set (local_vars locals)" for s
    using sensitive_key_local [OF assms] that by (rule local_vars_sensitive)
  from extracted keyword custom manual locals show ?thesis by blast
qed

theorem sensitive_values_filtered_witness:
  "sensitive_key ''password'' \<and>
   extract_context_info scenario_env ''_handle_exception'' 136 []
       [''password'' \<mapsto> PyStr ''call-secret''] ''password'' = Some (Summary ''<filtered>'') \<and>
   map (field ''password'')
     (delivered (snd (wrapper scenario_env default_kwargs async_divide [PyInt 5, PyInt 0]
        [''password'' \<mapsto> PyStr ''call-secret''] scenario_world)))
     = [Some (Summary ''<filtered>'')] \<and>
   map_sum id (\<lambda>w. map (field ''password'') (delivered w))
     (report_error scenario_env value_error ''manual report'' True password_kwargs scenario_world)
     = Inr [Some (Summary ''<filtered>'')] \<and>
   local_vars [(''password'', PyStr ''hunter2''), (''x'', PyInt 10)]
     = [(''password'', ''<filtered>''), (''x'', ''10'')]"
proof -
  let ?kw = "[''password'' \<mapsto> PyStr ''call-secret'']"
  have s: "sensitive_key ''password''"
    by (simp add: sensitive_key_def)
  have l: "local_vars [(''password'', PyStr ''hunter2''), (''x'', PyInt 10)]
     = [(''password'', ''<filtered>''), (''x'', ''10'')]"
    by (simp add: local_vars_def sensitive_local_def starts_with_underscore_def summarize_def
          string_of_int_def string_of_nat.simps digit_char_def)
  from sensitive_values_filtered [OF s, where kw = ?kw
         and E = scenario_env and caller = "''_handle_exception''" and line = 136 and args = "[]",
         THEN conjunct1]
  have x: "extract_context_info scenario_env ''_handle_exception'' 136 [] ?kw ''password''
             = Some (Summary ''<filtered>'')"
    by simp
  obtain r where r: "collected scenario_env default_kwargs async_zero_division = Inr r"
    using scenario_collected [of scenario_env default_kwargs async_zero_division]
    by (auto simp: scenario_env_def)
  have d: "delivered (snd (wrapper scenario_env default_kwargs async_divide [PyInt 5, PyInt 0]
          ?kw scenario_world))
        = [r ++ context_info scenario_env default_kwargs async_divide [PyInt 5, PyInt 0] ?kw]"
    using wrapper_delivers [where w = scenario_world and kwargs = ?kw,
            OF async_divide_raises _ _ r]
    by (simp add: no_classes_listed default_kwargs_def scenario_world_def)
  from sensitive_values_filtered [OF s, where kwargs = ?kw and D = default_kwargs
         and E = scenario_env and t = async_divide and args = "[PyInt 5, PyInt 0]"
         and error_info = r, THEN conjunct2, THEN conjunct1]
  have "(r ++ context_info scenario_env default_kwargs async_divide [PyInt 5, PyInt 0] ?kw)
          ''password'' = Some (Summary ''<filtered>'')"
    by simp
  with d have w: "map (field ''password'')
     (delivered (snd (wrapper scenario_env default_kwargs async_divide [PyInt 5, PyInt 0]
        ?kw scenario_world))) = [Some (Summary ''<filtered>'')]"
    by (simp add: field_def)
  obtain ei where ei: "collect_error_info scenario_env None (value_error ''manual report'') True
        ''DEBUG'' False 10 = Inr ei"
    by (simp add: collect_error_info_no_traceback)
  from sensitive_values_filtered [OF s, where K = password_kwargs and E = scenario_env
         and error_info = ei, THEN conjunct2, THEN conjunct2, THEN conjunct2, THEN conjunct1]
  have "(ei ++ report_context scenario_env password_kwargs) ''password''
          = Some (Summary ''<filtered>'')"
    by (simp add: password_kwargs_def)
  then have m: "map_sum id (\<lambda>w. map (field ''password'') (delivered w))
     (report_error scenario_env value_error ''manual report'' True password_kwargs scenario_world)
     = Inr [Some (Summary ''<filtered>'')]"
    using ei
    by (simp add: report_error_def scenario_env_def password_kwargs_def no_report_kwargs_def
          call_error_handler_def scenario_world_def field_def Let_def)
  from s x w m l show ?thesis by simp
qed


section \<open>The lengths of the stack trace and of the exception chain\<close>

text \<open>
  Claim C5, as stated, fails for a negative \<^verbatim>\<open>max_stack_depth\<close>: the stack trace is then
  empty, and its length 0 is above the configured depth.
\<close>

theorem negative_depth_counterexample:
  "map_sum id stack_trace_of
     (collect_error_info scenario_env (Some divide_traceback) zero_division True ''DEBUG'' False (- 1))
     = Inr (Some []) \<and>
   \<not> int (length ([] :: frame_record list)) \<le> - 1"
proof -
  have u: "files scenario_env = (\<lambda>filename. Unreadable)"
    by (simp add: scenario_env_def)
  show ?thesis
  proof (cases "collect_error_info scenario_env (Some divide_traceback) zero_division True
                  ''DEBUG'' False (- 1)")
    case (Inl err)
    from collect_error_info_fails [OF Inl] u show ?thesis by simp
  next
    case (Inr r)
    from collect_error_info_stack_trace [OF Inr] Inr show ?thesis
      by (simp add: stack_trace_of_def)
  qed
qed

text \<open>
  Claim C5, amended. In every report that \<open>collect_error_info\<close> assembles, the stack
  trace has at most \<open>max 0 max_stack_depth\<close> entries, hence at most \<open>max_stack_depth\<close>
  when that is not negative, and the exception chain has at most 10 links; the walk over
  the stack appends at most \<open>max 0 max_stack_depth\<close> frames from any starting object.
\<close>

theorem report_sequences_bounded:
  assumes "collect_error_info E tb_opt e ccc lvl cl d = Inr r"
  shows "(\<exists>frames chain.
            stack_trace_of r = Some frames \<and> int (length frames) \<le> max 0 d \<and>
            exception_chain_of r = Some chain \<and> length chain \<le> 10) \<and>
         int (length (walk_stack ccc cl d (files E) start 0)) \<le> max 0 d"
proof -
  have "stack_trace_of r = Some []"
    using collect_error_info_stack_trace [OF assms] by (simp add: stack_trace_of_def)
  moreover have "exception_chain_of r = Some (exception_chain (format_exception E) (Some e) 0)"
    using collect_error_info_error [OF assms] by (simp add: exception_chain_of_def)
  moreover have "length (exception_chain (format_exception E) (Some e) 0) \<le> 10"
    using exception_chain_length [of "format_exception E" "Some e" 0] by simp
  moreover have "int (length (walk_stack ccc cl d (files E) start 0)) \<le> max 0 d"
    using walk_stack_length [of ccc cl d "files E" start 0] by simp
  ultimately show ?thesis by simp
qed

theorem report_sequences_bounded_witness:
  "\<exists>r. collect_error_info scenario_env (Some divide_traceback) zero_division True ''DEBUG'' False 10
          = Inr r \<and>
       (\<exists>frames chain.
          stack_trace_of r = Some frames \<and> int (length frames) \<le> max 0 10 \<and>
          exception_chain_of r = Some chain \<and> length chain \<le> 10)"
proof (cases "collect_error_info scenario_env (Some divide_traceback) zero_division True
                ''DEBUG'' False 10")
  case (Inl err)
  from collect_error_info_fails [OF Inl] show ?thesis by (simp add: scenario_env_def)
next
  case (Inr r)
  from report_sequences_bounded [OF Inr] Inr show ?thesis by simp
qed


section \<open>The chain of exceptions\<close>

lemma followed_Suc:
  "followed e (Suc n) =
     (case followed e n of None \<Rightarrow> None | Some x \<Rightarrow> map_option snd (next_error x))"
proof (induction n arbitrary: e)
  case 0
  show ?case by (simp split: option.splits)
next
  case (Suc n)
  show ?case
  proof (cases "next_error e")
    case None
    then show ?thesis by simp
  next
    case (Some p)
    obtain rel nxt where p: "p = (rel, nxt)" by (cases p)
    have a: "followed e (Suc (Suc n)) = followed nxt (Suc n)"
      and b: "followed e (Suc n) = followed nxt n"
      using Some p by simp_all
    have "followed nxt (Suc n) =
            (case followed nxt n of None \<Rightarrow> None | Some x \<Rightarrow> map_option snd (next_error x))"
      by (rule Suc.IH)
    then show ?thesis unfolding a b .
  qed
qed

lemma exception_chain_nth:
  "j < length (exception_chain fmt (Some e) i) \<Longrightarrow>
   \<exists>x. followed e j = Some x \<and>
       exception_chain fmt (Some e) i ! j =
         (chain_info fmt x (i + j))\<lparr>link_relation := map_option fst (next_error x)\<rparr>"
proof (induction j arbitrary: e i)
  case 0
  then have i: "i < 10" by (cases "i < 10") (simp_all add: exception_chain_cap)
  show ?case
  proof (cases "next_error e")
    case None
    with i show ?thesis by (simp add: exception_chain_stop chain_info_def)
  next
    case (Some p)
    then show ?thesis using i by (cases p) (simp add: exception_chain_step)
  qed
next
  case (Suc j)
  then have i: "i < 10" by (cases "i < 10") (simp_all add: exception_chain_cap)
  show ?case
  proof (cases "next_error e")
    case None
    with i Suc.prems show ?thesis by (simp add: exception_chain_stop)
  next
    case (Some p)
    obtain rel nxt where p: "p = (rel, nxt)" by (cases p)
    from Suc.prems i Some p have "j < length (exception_chain fmt (Some nxt) (i + 1))"
      by (simp add: exception_chain_step)
    from Suc.IH [OF this] i Some p show ?thesis
      by (simp add: exception_chain_step)
  qed
qed

lemma exception_chain_covers:
  "followed e j \<noteq> None \<Longrightarrow> i + j < 10 \<Longrightarrow> j < length (exception_chain fmt (Some e) i)"
proof (induction j arbitrary: e i)
  case 0
  then show ?case
    by (cases "next_error e") (auto simp: exception_chain_step exception_chain_stop)
next
  case (Suc j)
  from Suc.prems obtain rel nxt where n: "next_error e = Some (rel, nxt)"
    and f: "followed nxt j \<noteq> None"
    by (auto split: option.splits)
  from Suc.prems have "i < 10" "Suc i + j < 10" by simp_all
  with Suc.IH [OF f, of "Suc i"] n show ?case
    by (simp add: exception_chain_step)
qed

text \<open>
  Claim C6, as stated, fails when the chain is cut at 10 links: with eleven exceptions
  linked by explicit causes, the tenth and last link of the result carries the relation
  to the eleventh exception, which is not in the list.
\<close>

theorem capped_chain_counterexample:
  "length (exception_chain (\<lambda>e. []) (Some (cause_chain 10)) 0) = 10 \<and>
   link_relation (last (exception_chain (\<lambda>e. []) (Some (cause_chain 10)) 0)) = Some ''caused_by''"
proof -
  have n: "next_error (cause_chain (Suc n)) = Some (''caused_by'', cause_chain n)" for n
    by (simp add: next_error_def)
  show ?thesis
    by (simp add: eval_nat_numeral exception_chain_step exception_chain_cap n
          del: cause_chain.simps)
qed

text \<open>
  Claim C6, amended. The chain of \<open>e\<close> is not empty and has at most 10 links. Link \<open>j\<close>
  describes the exception reached from \<open>e\<close> after \<open>j\<close> links (link 0 is \<open>e\<close> itself), has
  index \<open>j\<close>, is marked as the original at index 0 only, and its relation is the one of
  the link followed from that exception: \<^verbatim>\<open>caused_by\<close> when it has an explicit cause,
  otherwise \<^verbatim>\<open>context_for\<close> when it has a context that is not suppressed, otherwise
  none. The relation is absent on the last link when the chain has fewer than 10 links;
  a chain cut at 10 links keeps the relation of its last link. An exception with an
  explicit cause that has no further link gives two links with the relations
  \<^verbatim>\<open>caused_by\<close> and none.
\<close>

theorem exception_chain_links:
  "exception_chain fmt (Some e) 0 \<noteq> [] \<and>
   length (exception_chain fmt (Some e) 0) \<le> 10 \<and>
   (\<forall>j < length (exception_chain fmt (Some e) 0).
      \<exists>x. followed e j = Some x \<and>
          exception_chain fmt (Some e) 0 ! j =
            \<lparr>link_type = exc_type x, link_message = exc_message x, link_index = j,
             link_is_original = (if j = 0 then Some True else None),
             link_traceback = (case exc_traceback x of None \<Rightarrow> None | Some t \<Rightarrow> Some (fmt x)),
             link_relation = map_option fst (next_error x)\<rparr>) \<and>
   (\<forall>x c. exc_cause x = Some c \<longrightarrow> next_error x = Some (''caused_by'', c)) \<and>
   (\<forall>x c. exc_cause x = None \<and> exc_context x = Some c \<and> \<not> exc_suppress_context x \<longrightarrow>
            next_error x = Some (''context_for'', c)) \<and>
   (\<forall>x. exc_cause x = None \<and> (exc_context x = None \<or> exc_suppress_context x) \<longrightarrow>
            next_error x = None) \<and>
   (length (exception_chain fmt (Some e) 0) < 10 \<longrightarrow>
      link_relation (last (exception_chain fmt (Some e) 0)) = None) \<and>
   (\<forall>c. exc_cause e = Some c \<and> next_error c = None \<longrightarrow>
      map link_relation (exception_chain fmt (Some e) 0) = [Some ''caused_by'', None])"
proof -
  let ?chain = "exception_chain fmt (Some e) 0"
  have nonempty: "?chain \<noteq> []"
    using exception_chain_covers [of e 0 0 fmt] by auto
  have len: "length ?chain \<le> 10"
    using exception_chain_length [of fmt "Some e" 0] by simp
  have nth: "\<exists>x. followed e j = Some x \<and>
          ?chain ! j =
            \<lparr>link_type = exc_type x, link_message = exc_message x, link_index = j,
             link_is_original = (if j = 0 then Some True else None),
             link_traceback = (case exc_traceback x of None \<Rightarrow> None | Some t \<Rightarrow> Some (fmt x)),
             link_relation = map_option fst (next_error x)\<rparr>" if "j < length ?chain" for j
    using exception_chain_nth [OF that] by (auto simp: chain_info_def)
  have last_none: "link_relation (last ?chain) = None" if short: "length ?chain < 10"
  proof -
    obtain n where n: "length ?chain = Suc n"
      using nonempty by (cases ?chain) auto
    from nth [of n] n obtain x where x: "followed e n = Some x"
      and l: "link_relation (?chain ! n) = map_option fst (next_error x)"
      by auto
    have "followed e (Suc n) = None"
    proof (rule ccontr)
      assume "followed e (Suc n) \<noteq> None"
      from exception_chain_covers [OF this, of 0 fmt] short n show False by simp
    qed
    with x have "next_error x = None"
      by (simp add: followed_Suc del: followed.simps)
    with l have "link_relation (?chain ! n) = None" by simp
    moreover have "last ?chain = ?chain ! n"
      using n nonempty by (simp add: last_conv_nth)
    ultimately show ?thesis by simp
  qed
  have two: "map link_relation ?chain = [Some ''caused_by'', None]"
    if "exc_cause e = Some c \<and> next_error c = None" for c
    using that by (simp add: exception_chain_step exception_chain_stop next_error_def chain_info_def)
  have n1: "next_error x = Some (''caused_by'', c)" if "exc_cause x = Some c" for x c
    using that by (simp add: next_error_def)
  have n2: "next_error x = Some (''context_for'', c)"
    if "exc_cause x = None \<and> exc_context x = Some c \<and> \<not> exc_suppress_context x" for x c
    using that by (simp add: next_error_def)
  have n3: "next_error x = None"
    if "exc_cause x = None \<and> (exc_context x = None \<or> exc_suppress_context x)" for x
    using that by (auto simp: next_error_def split: option.splits)
  from nonempty len nth n1 n2 n3 last_none two show ?thesis by blast
qed

theorem exception_chain_links_witness:
  "exc_cause (cause_chain 1) = Some (cause_chain 0) \<and> next_error (cause_chain 0) = None \<and>
   length (exception_chain (\<lambda>e. []) (Some (cause_chain 1)) 0) = 2 \<and>
   map link_relation (exception_chain (\<lambda>e. []) (Some (cause_chain 1)) 0)
     = [Some ''caused_by'', None] \<and>
   link_relation (last (exception_chain (\<lambda>e. []) (Some (cause_chain 1)) 0)) = None \<and>
   map link_index (exception_chain (\<lambda>e. []) (Some (cause_chain 1)) 0) = [0, 1] \<and>
   map link_type (exception_chain (\<lambda>e. []) (Some (cause_chain 1)) 0)
     = [''RuntimeError'', ''ValueError'']"
proof -
  have c: "exc_cause (cause_chain 1) = Some (cause_chain 0)"
    and n: "next_error (cause_chain 0) = None"
    by (simp_all add: next_error_def value_error_def)
  have two: "map link_relation (exception_chain (\<lambda>e. []) (Some (cause_chain 1)) 0)
     = [Some ''caused_by'', None]"
    using exception_chain_links [of "\<lambda>e. []" "cause_chain 1"] c n by blast
  have l: "length (exception_chain (\<lambda>e. []) (Some (cause_chain 1)) 0) = 2"
    using arg_cong [OF two, of length] by simp
  then have "link_relation (last (exception_chain (\<lambda>e. []) (Some (cause_chain 1)) 0)) = None"
    using exception_chain_links [of "\<lambda>e. []" "cause_chain 1"] by simp
  moreover have "map link_index (exception_chain (\<lambda>e. []) (Some (cause_chain 1)) 0) = [0, 1]"
    and "map link_type (exception_chain (\<lambda>e. []) (Some (cause_chain 1)) 0)
     = [''RuntimeError'', ''ValueError'']"
    by (simp_all add: exception_chain_step exception_chain_stop next_error_def chain_info_def
          value_error_def)
  ultimately show ?thesis using c n two l by simp
qed


section \<open>The code around the error line\<close>

text \<open>
  For a file that is read, the window has at most 21 entries, each between ten lines
  before and ten lines after the target and within the file, and only the target line
  is marked; for a file that cannot be opened, it is the single line known beforehand.
\<close>

lemma code_window_readable:
  assumes "fs filename = Lines ls"
  shows "\<exists>window. code_window fs filename lineno src = Inr window \<and>
           length window \<le> 21 \<and>
           (\<forall>entry \<in> set window.
              lineno - 10 \<le> line_no entry \<and> line_no entry \<le> lineno + 10 \<and>
              1 \<le> line_no entry \<and> line_no entry \<le> int (length ls) \<and>
              code entry = rstrip (ls ! nat (line_no entry - 1)) \<and>
              (is_error_line entry \<longleftrightarrow> line_no entry = lineno))"
  using assms by (auto simp: code_window_def)

lemma code_window_unreadable:
  "fs filename = Unreadable \<Longrightarrow>
   code_window fs filename lineno src =
     Inr [\<lparr>line_no = lineno, code = (case src of None \<Rightarrow> [] | Some c \<Rightarrow> c),
           is_error_line = True\<rparr>]"
  by (simp add: code_window_def)

text \<open>
  Claim C7. The claim expects the window of the error line to be computed without ever
  raising, with a single entry when the file cannot be read. When the file opens but
  its bytes are not UTF-8, the window raises \<^verbatim>\<open>UnicodeDecodeError\<close>, which only the
  per-frame window of line 435 catches: \<^verbatim>\<open>report_error\<close>, called while the division by
  zero is handled, raises it to its caller, and the wrapper returns its sentinel without
  a report for the handler.
\<close>

theorem code_window_decode_error:
  "code_window (files undecodable_env) ''example_usage.py'' 17 (Some ''return a / b'')
     = Inl UnicodeDecodeError \<and>
   source_context (files undecodable_env) ''example_usage.py'' 17 = None \<and>
   report_error undecodable_env value_error ''manual report'' True no_report_kwargs scenario_world
     = Inl UnicodeDecodeError \<and>
   fst (wrapper undecodable_env default_kwargs divide_numbers [PyInt 10, PyInt 0] Map.empty
          scenario_world) = Sentinel ''ZeroDivisionError'' \<and>
   delivered (snd (wrapper undecodable_env default_kwargs divide_numbers [PyInt 10, PyInt 0]
          Map.empty scenario_world)) = []"
proof -
  have cw: "code_window (files undecodable_env) ''example_usage.py'' 17 (Some ''return a / b'')
     = Inl UnicodeDecodeError"
    by (simp add: code_window_def undecodable_env_def)
  have sc: "source_context (files undecodable_env) ''example_usage.py'' 17 = None"
    by (simp add: source_context_def undecodable_env_def)
  have last_tb: "last divide_traceback = \<lparr>tb_filename = ''example_usage.py'', tb_lineno = 17,
      tb_name = ''divide_numbers'', tb_line = Some ''return a / b''\<rparr>"
    by (simp add: divide_traceback_def)
  have ne: "divide_traceback \<noteq> []"
    by (simp add: divide_traceback_def)
  have c: "collect_error_info undecodable_env (Some divide_traceback) e True lvl cl d
             = Inl UnicodeDecodeError" for e lvl cl d
    using cw by (simp add: collect_error_info_def Let_def last_tb ne)
  have re: "report_error undecodable_env value_error ''manual report'' True no_report_kwargs
              scenario_world = Inl UnicodeDecodeError"
    by (simp add: report_error_def c undecodable_env_def [THEN arg_cong, of handled_traceback]
          scenario_env_def)
  have w: "wrapper undecodable_env default_kwargs divide_numbers [PyInt 10, PyInt 0] Map.empty
             scenario_world
           = (Sentinel ''ZeroDivisionError'',
              capture undecodable_env default_kwargs divide_numbers zero_division
                [PyInt 10, PyInt 0] Map.empty scenario_world)"
    using wrapper_captures [where D = default_kwargs and E = undecodable_env and w = scenario_world,
            OF divide_raises]
    by (simp add: default_kwargs_def ignore_errors_def propagate_errors_def isinstance_def)
  have "collected undecodable_env default_kwargs zero_division = Inl UnicodeDecodeError"
    by (simp add: collected_def c capture_code_context_def default_kwargs_def)
  then have "delivered (capture undecodable_env default_kwargs divide_numbers zero_division
             [PyInt 10, PyInt 0] Map.empty scenario_world) = []"
    by (simp add: capture_delivered scenario_world_def)
  with cw sc re w show ?thesis by simp
qed


section \<open>Calls that do not raise\<close>

text \<open>
  Claim C8, as stated, fails for a function that accepts a reserved key through
  \<^verbatim>\<open>**kwargs\<close>: \<^verbatim>\<open>target_type\<close> is not among the names of the signature, so the wrapper
  removes it, and the wrapped call returns \<^verbatim>\<open>None\<close> where the function itself returns
  the value passed.
\<close>

theorem reserved_key_dropped_counterexample:
  "wrapper scenario_env default_kwargs echo [] [''target_type'' \<mapsto> PyStr ''group''] scenario_world
     = (Returned None, scenario_world) \<and>
   fn_call echo [] [''target_type'' \<mapsto> PyStr ''group''] = Inr (Some (PyStr ''group''))"
  by (simp add: wrapper_def filter_arguments_def echo_def context_keys_def)

text \<open>
  Claim C8, amended. A keyword argument whose name is not reserved, or is a parameter
  name of the signature, reaches the function unchanged. When every reserved key that is
  passed is a parameter name of the signature, the wrapper calls the function with the
  very same arguments: a call that returns \<open>result\<close> returns \<open>result\<close> through the
  wrapper and leaves the world as it was. A reserved key that the function would only
  accept through \<^verbatim>\<open>**kwargs\<close>, or any reserved key when the signature cannot be
  inspected, is removed before the call.
\<close>

theorem wrapper_transparent:
  "(\<forall>k. k \<notin> set context_keys \<or> (\<exists>ps. sig_parameters t = Some ps \<and> k \<in> set ps) \<longrightarrow>
        filter_arguments t kwargs k = kwargs k) \<and>
   (\<forall>k. k \<in> set context_keys \<and> (\<forall>ps. sig_parameters t = Some ps \<longrightarrow> k \<notin> set ps) \<longrightarrow>
        filter_arguments t kwargs k = None) \<and>
   ((\<forall>k \<in> dom kwargs. k \<in> set context_keys \<longrightarrow>
        (\<exists>ps. sig_parameters t = Some ps \<and> k \<in> set ps)) \<longrightarrow>
      filter_arguments t kwargs = kwargs \<and>
      (\<forall>result. fn_call t args kwargs = Inr result \<longrightarrow>
         wrapper E D t args kwargs w = (Returned result, w)))"
proof -
  have keep: "filter_arguments t kwargs k = kwargs k"
    if "k \<notin> set context_keys \<or> (\<exists>ps. sig_parameters t = Some ps \<and> k \<in> set ps)" for k
    using that by (auto simp: filter_arguments_def split: option.splits)
  have drop: "filter_arguments t kwargs k = None"
    if "k \<in> set context_keys \<and> (\<forall>ps. sig_parameters t = Some ps \<longrightarrow> k \<notin> set ps)" for k
    using that by (auto simp: filter_arguments_def split: option.splits)
  have same: "filter_arguments t kwargs = kwargs"
    if h: "\<forall>k \<in> dom kwargs. k \<in> set context_keys \<longrightarrow>
             (\<exists>ps. sig_parameters t = Some ps \<and> k \<in> set ps)"
  proof
    fix k
    show "filter_arguments t kwargs k = kwargs k"
    proof (cases "kwargs k")
      case None
      then show ?thesis by (simp add: filter_arguments_def split: option.splits)
    next
      case (Some v)
      then have "k \<in> dom kwargs" by auto
      with h have "k \<notin> set context_keys \<or> (\<exists>ps. sig_parameters t = Some ps \<and> k \<in> set ps)"
        by blast
      then show ?thesis by (rule keep)
    qed
  qed
  have call: "wrapper E D t args kwargs w = (Returned result, w)"
    if "filter_arguments t kwargs = kwargs" "fn_call t args kwargs = Inr result" for result
    using that by (simp add: wrapper_def)
  from keep drop same call show ?thesis by blast
qed

theorem wrapper_transparent_witness:
  "dom [''event'' \<mapsto> PyStr ''message''] = {''event''} \<and>
   (\<exists>ps. sig_parameters show_event = Some ps \<and> ''event'' \<in> set ps) \<and>
   ''event'' \<in> set context_keys \<and>
   fn_call show_event [] [''event'' \<mapsto> PyStr ''message''] = Inr (Some (PyStr ''message'')) \<and>
   wrapper scenario_env default_kwargs show_event [] [''event'' \<mapsto> PyStr ''message'']
       scenario_world
     = (Returned (Some (PyStr ''message'')), scenario_world)"
proof -
  have d: "\<forall>k \<in> dom [''event'' \<mapsto> PyStr ''message''].
      k \<in> set context_keys \<longrightarrow> (\<exists>ps. sig_parameters show_event = Some ps \<and> k \<in> set ps)"
    by (simp add: show_event_def)
  have r: "''event'' \<in> set context_keys"
    by (simp add: context_keys_def)
  have c: "fn_call show_event [] [''event'' \<mapsto> PyStr ''message''] = Inr (Some (PyStr ''message''))"
    by (simp add: show_event_def)
  from wrapper_transparent [where t = show_event and kwargs = "[''event'' \<mapsto> PyStr ''message'']"
         and args = "[]" and E = scenario_env and D = default_kwargs and w = scenario_world] d c
  have "wrapper scenario_env default_kwargs show_event [] [''event'' \<mapsto> PyStr ''message'']
       scenario_world = (Returned (Some (PyStr ''message'')), scenario_world)"
    by blast
  moreover have "dom [''event'' \<mapsto> PyStr ''message''] = {''event''}"
    and "\<exists>ps. sig_parameters show_event = Some ps \<and> ''event'' \<in> set ps"
    by (simp_all add: show_event_def)
  ultimately show ?thesis using r c by blast
qed


section \<open>The context merged into the report\<close>

text \<open>
  Claim C9, as stated, fails for an entry of \<^verbatim>\<open>custom_context\<close>: with
  \<^verbatim>\<open>custom_context={"error": 42}\<close> the report handed to the handler holds the integer
  42 itself under \<^verbatim>\<open>error\<close>, not a string summary.
\<close>

theorem custom_value_counterexample:
  "map (field ''error'')
     (delivered (snd (wrapper scenario_env custom_error divide_numbers [PyInt 10, PyInt 0]
        Map.empty scenario_world)))
     = [Some (Raw (PyInt 42))]"
proof -
  obtain r where r: "collected scenario_env custom_error zero_division = Inr r"
    using scenario_collected [of scenario_env custom_error zero_division]
    by (auto simp: scenario_env_def)
  have "delivered (snd (wrapper scenario_env custom_error divide_numbers [PyInt 10, PyInt 0]
          Map.empty scenario_world))
        = [r ++ context_info scenario_env custom_error divide_numbers [PyInt 10, PyInt 0] Map.empty]"
    using wrapper_delivers [where w = scenario_world and kwargs = Map.empty, OF divide_raises _ _ r]
    by (simp add: no_classes_listed custom_error_def default_kwargs_def scenario_world_def)
  moreover have "context_info scenario_env custom_error divide_numbers [PyInt 10, PyInt 0]
                   Map.empty ''error'' = Some (Raw (PyInt 42))"
    by (simp add: top_level_in_context top_level_fields_def custom_context_def custom_error_def)
  ultimately show ?thesis by (simp add: field_def)
qed

text \<open>
  Claim C9, amended. The context is merged into the report after the fields
  \<^verbatim>\<open>error\<close>, \<^verbatim>\<open>location\<close>, \<^verbatim>\<open>code_context\<close>, \<^verbatim>\<open>stack_trace\<close>, \<^verbatim>\<open>raw_traceback\<close>,
  \<^verbatim>\<open>highlighted_code\<close> and \<^verbatim>\<open>configuration\<close> are built. For a key with the name of
  one of these fields, the report handed to the handler holds, in place of the
  structured field: the value of the \<^verbatim>\<open>custom_context\<close> entry as it is (not
  summarised) when there is one; otherwise the string summary of the keyword argument
  of that name, taken from the keywords of the call merged with those of the decorator;
  otherwise the structured field. No key of the decorated function has the name of such a field. Within the
  context, the keys of the decorated function override the entries of
  \<^verbatim>\<open>custom_context\<close>, which override the summaries of the keyword arguments.
\<close>

theorem context_replaces_report_fields:
  assumes "fn_call t args (filter_arguments t kwargs) = Inl e"
    and "\<not> list_ex (isinstance e) (ignore_errors D)"
    and "\<not> list_ex (isinstance e) (propagate_errors D)"
    and "collected E D e = Inr error_info"
  shows "(\<forall>h. error_handler w = Some (Blocking h) \<longrightarrow>
            delivered (snd (wrapper E D t args kwargs w))
              = delivered w @ [error_info ++ context_info E D t args kwargs]) \<and>
         (error_handler w = Some Coroutine \<and> loop_running w \<longrightarrow>
            scheduled (snd (wrapper E D t args kwargs w))
              = scheduled w @ [error_info ++ context_info E D t args kwargs]) \<and>
         (\<forall>k \<in> set top_level_fields.
            (error_info ++ context_info E D t args kwargs) k =
              (case custom_context D k of
                 Some x \<Rightarrow> Some (Raw x)
               | None \<Rightarrow>
                   (case (kwargs ++ context_decorator_kwargs D) k of
                      Some v \<Rightarrow> Some (Summary (summarize 100 v))
                    | None \<Rightarrow> error_info k)) \<and>
            decorated_function_info t k = None) \<and>
         (\<forall>k. context_info E D t args kwargs k =
              (case decorated_function_info t k of
                 Some v \<Rightarrow> Some v
               | None \<Rightarrow>
                   (case custom_context D k of
                      Some x \<Rightarrow> Some (Raw x)
                    | None \<Rightarrow>
                        extract_context_info E ''_handle_exception'' 136 args
                          (context_kwargs E D kwargs) k)))"
proof -
  have "delivered (snd (wrapper E D t args kwargs w))
           = delivered w @ [error_info ++ context_info E D t args kwargs]"
    if "error_handler w = Some (Blocking h)" for h
    using assms that by (rule wrapper_delivers)
  moreover have "scheduled (snd (wrapper E D t args kwargs w))
           = scheduled w @ [error_info ++ context_info E D t args kwargs]"
    if "error_handler w = Some Coroutine \<and> loop_running w"
    using wrapper_schedules(2) [OF assms, of w] that by simp
  moreover have "(error_info ++ context_info E D t args kwargs) k =
              (case custom_context D k of
                 Some x \<Rightarrow> Some (Raw x)
               | None \<Rightarrow>
                   (case (kwargs ++ context_decorator_kwargs D) k of
                      Some v \<Rightarrow> Some (Summary (summarize 100 v))
                    | None \<Rightarrow> error_info k))" if "k \<in> set top_level_fields" for k
  proof -
    define m where "m = kwargs ++ context_decorator_kwargs D"
    have "context_info E D t args kwargs k =
            (case custom_context D k of
               Some x \<Rightarrow> Some (Raw x)
             | None \<Rightarrow> (case m k of Some v \<Rightarrow> Some (Summary (summarize 100 v)) | None \<Rightarrow> None))"
      unfolding m_def using that by (rule top_level_in_context)
    then have "(error_info ++ context_info E D t args kwargs) k =
            (case custom_context D k of
               Some x \<Rightarrow> Some (Raw x)
             | None \<Rightarrow>
                 (case m k of Some v \<Rightarrow> Some (Summary (summarize 100 v)) | None \<Rightarrow> error_info k))"
      by (simp add: map_add_def split: option.splits)
    then show ?thesis unfolding m_def .
  qed
  moreover have "decorated_function_info t k = None" if "k \<in> set top_level_fields" for k
    using that by (rule top_level_not_decorated)
  ultimately show ?thesis
    using context_info_precedence [of E D t args kwargs] by blast
qed

theorem context_replaces_report_fields_witness:
  "fn_call async_divide [PyInt 5, PyInt 0]
      (filter_arguments async_divide [''location'' \<mapsto> PyStr ''checkout'']) = Inl async_zero_division \<and>
   \<not> list_ex (isinstance async_zero_division) (ignore_errors default_kwargs) \<and>
   \<not> list_ex (isinstance async_zero_division) (propagate_errors default_kwargs) \<and>
   (\<exists>error_info. collected scenario_env default_kwargs async_zero_division = Inr error_info) \<and>
   error_handler scenario_world = Some (Blocking (\<lambda>r. False)) \<and>
   map (field ''location'')
     (delivered (snd (wrapper scenario_env default_kwargs async_divide [PyInt 5, PyInt 0]
        [''location'' \<mapsto> PyStr ''checkout''] scenario_world)))
     = [Some (Summary ''checkout'')]"
proof -
  let ?kw = "[''location'' \<mapsto> PyStr ''checkout'']"
  obtain r where r: "collected scenario_env default_kwargs async_zero_division = Inr r"
    using scenario_collected [of scenario_env default_kwargs async_zero_division]
    by (auto simp: scenario_env_def)
  have i: "\<not> list_ex (isinstance async_zero_division) (ignore_errors default_kwargs)"
    and p: "\<not> list_ex (isinstance async_zero_division) (propagate_errors default_kwargs)"
    by (simp_all add: no_classes_listed default_kwargs_def)
  have h: "error_handler scenario_world = Some (Blocking (\<lambda>r. False))"
    by (simp add: scenario_world_def)
  note inst = context_replaces_report_fields [where args = "[PyInt 5, PyInt 0]" and kwargs = ?kw
      and w = scenario_world, OF async_divide_raises i p r]
  have "''location'' \<in> set top_level_fields"
    by (simp add: top_level_fields_def)
  with inst have "(r ++ context_info scenario_env default_kwargs async_divide [PyInt 5, PyInt 0] ?kw)
        ''location'' = Some (Summary ''checkout'')"
    by (simp add: summarize_def)
  moreover from inst h have "delivered (snd (wrapper scenario_env default_kwargs async_divide
        [PyInt 5, PyInt 0] ?kw scenario_world))
      = delivered scenario_world @
          [r ++ context_info scenario_env default_kwargs async_divide [PyInt 5, PyInt 0] ?kw]"
    by blast
  ultimately have "map (field ''location'')
     (delivered (snd (wrapper scenario_env default_kwargs async_divide [PyInt 5, PyInt 0]
        ?kw scenario_world))) = [Some (Summary ''checkout'')]"
    by (simp add: field_def scenario_world_def)
  with async_divide_raises [of ?kw] i p r h show ?thesis by blast
qed


section \<open>A report made by hand\<close>

text \<open>
  Claim C10, as stated, fails when \<^verbatim>\<open>report_error\<close> is given a keyword with the name of
  a field: \<^verbatim>\<open>report_error(ValueError, "manual report", location="checkout")\<close>, called
  while no exception is handled, hands over a report whose \<^verbatim>\<open>location\<close> is the string
  \<^verbatim>\<open>"checkout"\<close>, not \<^verbatim>\<open>None\<close>.
\<close>

theorem location_keyword_counterexample:
  "handled_traceback scenario_env = None \<and>
   map_sum id (\<lambda>w. map (field ''location'') (delivered w))
     (report_error scenario_env value_error ''manual report'' True location_kwargs scenario_world)
     = Inr [Some (Summary ''checkout'')]"
proof -
  have "report_context scenario_env location_kwargs ''location'' = Some (Summary ''checkout'')"
    by (simp add: report_context_key kw_entries_def location_kwargs_def no_report_kwargs_def
          sensitive_key_def starts_with_underscore_def summarize_def)
  then show ?thesis
    by (simp add: report_error_def scenario_env_def collect_error_info_no_traceback
          call_error_handler_def scenario_world_def field_def Let_def)
qed

text \<open>
  Claim C10, amended. When \<^verbatim>\<open>report_error\<close> is called while no exception is handled,
  with a class whose fresh instance has no cause, no context and no traceback, it does
  not raise, and the fields it assembles have \<^verbatim>\<open>location\<close> and \<^verbatim>\<open>code_context\<close> equal
  to \<^verbatim>\<open>None\<close>, an empty stack trace and an exception chain of exactly one link, which
  describes the instance (index 0, marked original, no relation, no traceback). The
  report handed to the handler has each of these fields unless the keywords of the call
  have a key of that name, whose string summary then replaces the field.
\<close>

theorem manual_report_without_exception:
  assumes "handled_traceback E = None"
    and "exc_cause (error_type reason) = None"
    and "exc_context (error_type reason) = None"
    and "exc_traceback (error_type reason) = None"
  shows "\<exists>error_info.
           report_error E error_type reason ccc K w
             = Inr (call_error_handler (error_info ++ report_context E K) w) \<and>
           field ''location'' error_info = Some (LocationV None) \<and>
           field ''code_context'' error_info = Some (CodeContextV None) \<and>
           stack_trace_of error_info = Some [] \<and>
           exception_chain_of error_info =
             Some [\<lparr>link_type = exc_type (error_type reason),
                    link_message = exc_message (error_type reason),
                    link_index = 0, link_is_original = Some True,
                    link_traceback = None, link_relation = None\<rparr>] \<and>
           (\<forall>k \<in> set top_level_fields.
              (error_info ++ report_context E K) k =
                (case rk_other K k of
                   Some v \<Rightarrow> Some (Summary (summarize 100 v))
                 | None \<Rightarrow> error_info k))"
proof -
  let ?e = "error_type reason"
  let ?lvl = "case rk_error_level K of None \<Rightarrow> ''DEBUG'' | Some l \<Rightarrow> l"
  let ?cl = "case rk_capture_locals K of None \<Rightarrow> False | Some b \<Rightarrow> b"
  let ?d = "case rk_max_stack_depth K of None \<Rightarrow> 10 | Some d \<Rightarrow> d"
  obtain error_info where ei: "collect_error_info E None ?e ccc ?lvl ?cl ?d = Inr error_info"
    by (simp add: collect_error_info_no_traceback)
  have rep: "report_error E error_type reason ccc K w
             = Inr (call_error_handler (error_info ++ report_context E K) w)"
    using assms(1) ei by (simp add: report_error_def)
  have n: "next_error ?e = None"
    using assms(2,3) by (simp add: next_error_def)
  have chain: "exception_chain (format_exception E) (Some ?e) 0 =
      [\<lparr>link_type = exc_type ?e, link_message = exc_message ?e, link_index = 0,
        link_is_original = Some True, link_traceback = None, link_relation = None\<rparr>]"
    using n assms(4) by (simp add: exception_chain_stop chain_info_def)
  have fields: "field ''location'' error_info = Some (LocationV None)"
    "field ''code_context'' error_info = Some (CodeContextV None)"
    "stack_trace_of error_info = Some []"
    "exception_chain_of error_info =
       Some [\<lparr>link_type = exc_type ?e, link_message = exc_message ?e, link_index = 0,
              link_is_original = Some True, link_traceback = None, link_relation = None\<rparr>]"
    using ei [unfolded collect_error_info_no_traceback] chain
    by (auto simp: field_def stack_trace_of_def exception_chain_of_def)
  have merged: "(error_info ++ report_context E K) k =
                (case rk_other K k of
                   Some v \<Rightarrow> Some (Summary (summarize 100 v))
                 | None \<Rightarrow> error_info k)" if k: "k \<in> set top_level_fields" for k
  proof -
    have "k \<notin> {''error_level'', ''capture_locals'', ''max_stack_depth''}"
      using k by (auto simp: top_level_fields_def)
    with top_level_plain(1,2) [OF k] have "report_context E K k = kw_entries (rk_other K) k"
      by (rule report_context_key)
    with top_level_plain(4) [OF k] show ?thesis
      by (simp add: kw_entries_def map_add_def split: option.splits)
  qed
  from rep fields merged show ?thesis by blast
qed

theorem manual_report_without_exception_witness:
  "handled_traceback scenario_env = None \<and>
   exc_cause (value_error ''manual report'') = None \<and>
   exc_context (value_error ''manual report'') = None \<and>
   exc_traceback (value_error ''manual report'') = None \<and>
   map_sum id
     (\<lambda>w. map (\<lambda>r. (field ''location'' r, field ''code_context'' r, stack_trace_of r,
                    exception_chain_of r)) (delivered w))
     (report_error scenario_env value_error ''manual report'' True no_report_kwargs scenario_world)
     = Inr [(Some (LocationV None), Some (CodeContextV None), Some [],
             Some [\<lparr>link_type = ''ValueError'', link_message = ''manual report'', link_index = 0,
                    link_is_original = Some True, link_traceback = None,
                    link_relation = None\<rparr>])]"
proof -
  have a: "handled_traceback scenario_env = None"
    and b: "exc_cause (value_error ''manual report'') = None"
    and c: "exc_context (value_error ''manual report'') = None"
    and d: "exc_traceback (value_error ''manual report'') = None"
    by (simp_all add: scenario_env_def value_error_def)
  from manual_report_without_exception [where E = scenario_env and error_type = value_error
         and reason = "''manual report''" and ccc = True and K = no_report_kwargs
         and w = scenario_world, OF a b c d]
  obtain error_info where
    rep: "report_error scenario_env value_error ''manual report'' True no_report_kwargs scenario_world
             = Inr (call_error_handler (error_info ++ report_context scenario_env no_report_kwargs)
                      scenario_world)"
    and loc: "field ''location'' error_info = Some (LocationV None)"
    and cc: "field ''code_context'' error_info = Some (CodeContextV None)"
    and st: "stack_trace_of error_info = Some []"
    and ch: "exception_chain_of error_info =
             Some [\<lparr>link_type = exc_type (value_error ''manual report''),
                    link_message = exc_message (value_error ''manual report''),
                    link_index = 0, link_is_original = Some True,
                    link_traceback = None, link_relation = None\<rparr>]"
    and merged: "\<forall>k \<in> set top_level_fields.
              (error_info ++ report_context scenario_env no_report_kwargs) k =
                (case rk_other no_report_kwargs k of
                   Some v \<Rightarrow> Some (Summary (summarize 100 v))
                 | None \<Rightarrow> error_info k)"
    by blast
  let ?r = "error_info ++ report_context scenario_env no_report_kwargs"
  have same: "?r k = error_info k" if "k \<in> set top_level_fields" for k
    using merged that by (simp add: no_report_kwargs_def)
  have "?r ''location'' = error_info ''location''" "?r ''code_context'' = error_info ''code_context''"
    "?r ''stack_trace'' = error_info ''stack_trace''" "?r ''error'' = error_info ''error''"
    by (rule same, simp add: top_level_fields_def)+
  with loc cc st ch have "field ''location'' ?r = Some (LocationV None)"
    "field ''code_context'' ?r = Some (CodeContextV None)"
    "stack_trace_of ?r = Some []"
    "exception_chain_of ?r =
       Some [\<lparr>link_type = ''ValueError'', link_message = ''manual report'', link_index = 0,
              link_is_original = Some True, link_traceback = None, link_relation = None\<rparr>]"
    by (simp_all add: field_def stack_trace_of_def exception_chain_of_def value_error_def)
  with rep a b c d show ?thesis
    by (simp add: call_error_handler_def scenario_world_def Let_def)
qed


end
